theory Spec2Isabelle
  imports Complex_Main "HOL-Library.AList" "HOL-Library.Sublist"
begin

section \<open>Values\<close>

text \<open>
  A numpy \<open>datetime64\<close> is either a point in time (nanoseconds since the epoch) or
  \<open>NaT\<close>. Every ordering comparison with \<open>NaT\<close> on either side is \<open>False\<close>.
\<close>

datatype datetime64 = NaT | DT int

fun dt_lt :: "datetime64 \<Rightarrow> datetime64 \<Rightarrow> bool" where
  "dt_lt (DT a) (DT b) = (a < b)"
| "dt_lt _ _ = False"

fun dt_le :: "datetime64 \<Rightarrow> datetime64 \<Rightarrow> bool" where
  "dt_le (DT a) (DT b) = (a \<le> b)"
| "dt_le _ _ = False"

fun dt_ge :: "datetime64 \<Rightarrow> datetime64 \<Rightarrow> bool" where
  "dt_ge (DT a) (DT b) = (a \<ge> b)"
| "dt_ge _ _ = False"

text \<open>
  The values a caller may pass for \<open>start_analysis_dt\<close> and \<open>end_analysis_dt\<close>
  (\<open>date | datetime | pd.Timestamp | np.datetime64\<close>): a date as its day number, a
  datetime as microseconds, a pandas Timestamp and a numpy datetime64 as their value.
\<close>

datatype dt_like =
    PyDate int
  | PyDatetime int
  | PdTimestamp datetime64
  | NpDatetime64 datetime64

text \<open>
  A pandas \<open>Timestamp\<close> object; \<open>to_datetime64\<close> reads its value as a numpy
  \<open>datetime64\<close> and cannot fail.
\<close>

datatype Timestamp = Timestamp datetime64

fun to_datetime64 :: "Timestamp \<Rightarrow> datetime64" where
  "to_datetime64 (Timestamp d) = d"

text \<open>
  A Python float: a finite value, an infinity or NaN. The bounds \<open>ge=0.0, le=1.0\<close> of
  \<open>confloat\<close> are two comparisons, both false on NaN.
\<close>

datatype pyfloat = Finite real | PosInf | NegInf | NaN

fun float_ge :: "pyfloat \<Rightarrow> real \<Rightarrow> bool" where
  "float_ge (Finite x) b = (x \<ge> b)"
| "float_ge PosInf b = True"
| "float_ge NegInf b = False"
| "float_ge NaN b = False"

fun float_le :: "pyfloat \<Rightarrow> real \<Rightarrow> bool" where
  "float_le (Finite x) b = (x \<le> b)"
| "float_le PosInf b = False"
| "float_le NegInf b = True"
| "float_le NaN b = False"

datatype EdgeBinsEnum = FRACTIONAL | ENTIRE

fun EdgeBinsEnum_value :: "EdgeBinsEnum \<Rightarrow> int" where
  "EdgeBinsEnum_value FRACTIONAL = 1"
| "EdgeBinsEnum_value ENTIRE = 2"

datatype VerbosityEnum = WARNING | INFO | DEBUG

fun VerbosityEnum_value :: "VerbosityEnum \<Rightarrow> int" where
  "VerbosityEnum_value WARNING = 0"
| "VerbosityEnum_value INFO = 1"
| "VerbosityEnum_value DEBUG = 2"

section \<open>Errors\<close>

text \<open>
  A \<open>ValueError\<close> carries its message: a fixed text, or the text of
  \<open>validate_start_end_date\<close>, \<open>Cannot convert {v} to to a numpy datetime64
  object.\n{error}\<close>, kept as its two parts.
\<close>

datatype value_error = Message string | CannotConvert dt_like string

text \<open>
  One entry of a pydantic \<open>ValidationError\<close>: the \<open>ValueError\<close> a validator raised
  for a field (the empty name for a validator of the whole model), or an element of
  \<open>percentiles\<close> that breaks a bound of \<open>confloat(ge=0.0, le=1.0)\<close>.
\<close>

datatype line_error =
    ValueErrorAt string value_error
  | PercentileOutOfRange nat pyfloat

text \<open>
  The exceptions of the program. pydantic collects the \<open>ValueError\<close>s its validators
  raise into the \<open>ValidationError\<close> it raises itself; any other exception leaves the
  constructor as it is.
\<close>

datatype exn =
    ValueError value_error
  | ZeroDivisionError
  | TypeError
  | KeyError string
  | OSError string
  | TOMLDecodeError string
  | ValidationError "line_error list"

definition and_then :: "exn + 'a \<Rightarrow> ('a \<Rightarrow> exn + 'b) \<Rightarrow> exn + 'b" where
  "and_then r f = (case r of Inl e \<Rightarrow> Inl e | Inr x \<Rightarrow> f x)"

fun traverse :: "('a \<Rightarrow> exn + 'b) \<Rightarrow> 'a list \<Rightarrow> exn + 'b list" where
  "traverse f [] = Inr []"
| "traverse f (x # xs) =
     (case f x of
        Inl e \<Rightarrow> Inl e
      | Inr y \<Rightarrow> (case traverse f xs of Inl e \<Rightarrow> Inl e | Inr ys \<Rightarrow> Inr (y # ys)))"

section \<open>Data frames\<close>

text \<open>
  A cell of a column: a timestamp (possibly missing, \<open>NaT\<close>) or any other object (a
  category label, say). A \<open>Series\<close> is an index with its values; a \<open>DataFrame\<close> is an
  index with its columns in order, each as long as the index.
\<close>

datatype cell = Time datetime64 | Obj string

record Series =
  s_index :: "int list"
  s_values :: "cell list"

record DataFrame =
  df_index :: "int list"
  df_data :: "(string \<times> cell list) list"

definition df_columns :: "DataFrame \<Rightarrow> string list" where
  "df_columns df = map fst (df_data df)"

text \<open>\<open>df[c]\<close>: the column as a Series on the frame's index, \<open>KeyError\<close> when absent.\<close>

definition getitem :: "DataFrame \<Rightarrow> string \<Rightarrow> exn + Series" where
  "getitem df c =
     (case map_of (df_data df) c of
        None \<Rightarrow> Inl (KeyError c)
      | Some vs \<Rightarrow> Inr \<lparr>s_index = df_index df, s_values = vs\<rparr>)"

text \<open>
  \<open>pd.DataFrame({k1: s1, ...})\<close> over Series of one index (alignment is then the
  identity): a new frame on that index holding a copy of each Series. The dict is given
  as built, a key written twice holding its last value.
\<close>

definition DataFrame_of_dict :: "(string \<times> Series) list \<Rightarrow> DataFrame" where
  "DataFrame_of_dict d =
     \<lparr>df_index = (case d of [] \<Rightarrow> [] | (k, s) # _ \<Rightarrow> s_index s),
      df_data = map (\<lambda>(k, s). (k, s_values s)) d\<rparr>"

text \<open>\<open>df[c] = s\<close>: replaces the column where it stands, or appends it.\<close>

definition setitem :: "DataFrame \<Rightarrow> string \<Rightarrow> Series \<Rightarrow> DataFrame" where
  "setitem df c s = df\<lparr>df_data := AList.update c (s_values s) (df_data df)\<rparr>"

text \<open>
  Elementwise comparison of a column with a \<open>datetime64\<close> scalar: \<open>False\<close> where the
  cell is \<open>NaT\<close>, \<open>TypeError\<close> where the cell is not a timestamp.
\<close>

fun cell_lt :: "datetime64 \<Rightarrow> cell \<Rightarrow> exn + bool" where
  "cell_lt d (Time t) = Inr (dt_lt t d)"
| "cell_lt d (Obj s) = Inl TypeError"

fun cell_ge :: "datetime64 \<Rightarrow> cell \<Rightarrow> exn + bool" where
  "cell_ge d (Time t) = Inr (dt_ge t d)"
| "cell_ge d (Obj s) = Inl TypeError"

definition series_lt :: "Series \<Rightarrow> datetime64 \<Rightarrow> exn + bool list" where
  "series_lt s d = traverse (cell_lt d) (s_values s)"

definition series_ge :: "Series \<Rightarrow> datetime64 \<Rightarrow> exn + bool list" where
  "series_ge s d = traverse (cell_ge d) (s_values s)"

fun cell_isna :: "cell \<Rightarrow> bool" where
  "cell_isna (Time NaT) = True"
| "cell_isna _ = False"

definition isna :: "Series \<Rightarrow> bool list" where
  "isna s = map cell_isna (s_values s)"

definition mask_not :: "bool list \<Rightarrow> bool list" where
  "mask_not m = map Not m"

definition mask_and :: "bool list \<Rightarrow> bool list \<Rightarrow> bool list" where
  "mask_and m1 m2 = map (\<lambda>(a, b). a \<and> b) (zip m1 m2)"

definition mask_sum :: "bool list \<Rightarrow> nat" where
  "mask_sum m = length (filter id m)"

text \<open>\<open>df.loc[mask]\<close>: a new frame of the rows where the mask holds.\<close>

definition select :: "bool list \<Rightarrow> 'a list \<Rightarrow> 'a list" where
  "select m xs = map snd (filter fst (zip m xs))"

definition loc :: "DataFrame \<Rightarrow> bool list \<Rightarrow> DataFrame" where
  "loc df m =
     \<lparr>df_index = select m (df_index df),
      df_data = map (\<lambda>(k, vs). (k, select m vs)) (df_data df)\<rparr>"

text \<open>\<open>df.reset_index(drop=True)\<close>: a new frame numbered from 0.\<close>

definition reset_index_drop :: "DataFrame \<Rightarrow> DataFrame" where
  "reset_index_drop df = df\<lparr>df_index := map int [0..<length (df_index df)]\<rparr>"

section \<open>The heap\<close>

text \<open>
  Data frames are objects: a \<open>Scenario\<close> holds references to them, and two references
  may name one frame. The heap holds every frame allocated so far, a reference being the
  position of its frame, and the records the module's logger has been given.
\<close>

datatype log_record = MissingEntry nat | MissingExit nat

record heap =
  frames :: "DataFrame list"
  warnings :: "log_record list"

definition alloc :: "heap \<Rightarrow> DataFrame \<Rightarrow> nat \<times> heap" where
  "alloc st df = (length (frames st), st\<lparr>frames := frames st @ [df]\<rparr>)"

definition deref :: "heap \<Rightarrow> nat \<Rightarrow> DataFrame" where
  "deref st r = frames st ! r"

definition assign :: "heap \<Rightarrow> nat \<Rightarrow> DataFrame \<Rightarrow> heap" where
  "assign st r df = st\<lparr>frames := (frames st)[r := df]\<rparr>"

definition logger_warning :: "heap \<Rightarrow> log_record \<Rightarrow> heap" where
  "logger_warning st w = st\<lparr>warnings := warnings st @ [w]\<rparr>"

section \<open>The Scenario model\<close>

datatype float_seq = PyTuple "pyfloat list" | PyList "pyfloat list"

fun items :: "float_seq \<Rightarrow> pyfloat list" where
  "items (PyTuple xs) = xs"
| "items (PyList xs) = xs"

text \<open>
  The fields of \<open>Scenario\<close>, in the order of the class. \<open>'h\<close> is the type of the
  dict that \<open>make_hills\<close> stores in \<open>hills\<close>.
\<close>

record 'h Scenario =
  scenario_name :: string
  stops_df :: nat
  in_field :: string
  out_field :: string
  start_analysis_dt :: datetime64
  end_analysis_dt :: datetime64
  cat_field :: "string option"
  bin_size_minutes :: int
  cats_to_exclude :: "string list option"
  occ_weight_field :: "string option"
  percentiles :: float_seq
  nonstationary_stats :: bool
  stationary_stats :: bool
  edge_bins :: EdgeBinsEnum
  output_path :: string
  export_bydatetime_csv :: bool
  export_summaries_csv :: bool
  make_all_dow_plots :: bool
  make_all_week_plots :: bool
  export_all_dow_plots :: bool
  export_all_week_plots :: bool
  cap :: "int option"
  xlabel :: "string option"
  ylabel :: "string option"
  verbosity :: int
  stops_preprocessed_df :: "nat option"
  hills :: "'h option"

text \<open>
  The keyword arguments of the constructor, typed as the fields are. The six required
  parameters are always there; for an optional one \<open>None\<close> says that the caller left it
  out (for \<open>cats_to_exclude\<close>, \<open>occ_weight_field\<close> and \<open>cap\<close>, whose default is
  \<open>None\<close>, also that the caller passed \<open>None\<close>). The attributes
  \<open>stops_preprocessed_df\<close> and \<open>hills\<close> start as \<open>None\<close>.
\<close>

record kwargs =
  kw_scenario_name :: string
  kw_stops_df :: nat
  kw_in_field :: string
  kw_out_field :: string
  kw_start_analysis_dt :: dt_like
  kw_end_analysis_dt :: dt_like
  kw_cat_field :: "string option"
  kw_bin_size_minutes :: "int option"
  kw_cats_to_exclude :: "string list option"
  kw_occ_weight_field :: "string option"
  kw_percentiles :: "float_seq option"
  kw_nonstationary_stats :: "bool option"
  kw_stationary_stats :: "bool option"
  kw_edge_bins :: "EdgeBinsEnum option"
  kw_output_path :: "string option"
  kw_export_bydatetime_csv :: "bool option"
  kw_export_summaries_csv :: "bool option"
  kw_make_all_dow_plots :: "bool option"
  kw_make_all_week_plots :: "bool option"
  kw_export_all_dow_plots :: "bool option"
  kw_export_all_week_plots :: "bool option"
  kw_cap :: "int option"
  kw_xlabel :: "string option option"
  kw_ylabel :: "string option option"
  kw_verbosity :: "int option"

subsection \<open>Field validators\<close>

definition field_exists :: "DataFrame \<Rightarrow> string option \<Rightarrow> exn + string option" where
  "field_exists df v =
     (case v of
        None \<Rightarrow> Inr v
      | Some c \<Rightarrow>
          if c \<notin> set (df_columns df)
          then Inl (ValueError (Message (c @ '' is not a column in the dataframe'')))
          else Inr v)"

text \<open>\<open>field_exists\<close> on a field of type \<open>str\<close>, whose value is never \<open>None\<close>.\<close>

definition field_exists_str :: "DataFrame \<Rightarrow> string \<Rightarrow> exn + string" where
  "field_exists_str df c =
     and_then (field_exists df (Some c)) (\<lambda>v. Inr (case v of Some c' \<Rightarrow> c' | None \<Rightarrow> c))"

text \<open>
  \<open>pd.Timestamp(v)\<close> is pandas' own: it is a parameter here, giving the Timestamp or the
  message of the \<open>ValueError\<close> it raises.
\<close>

definition validate_start_end_date ::
  "(dt_like \<Rightarrow> string + Timestamp) \<Rightarrow> dt_like \<Rightarrow> exn + datetime64" where
  "validate_start_end_date pd_Timestamp v =
     (case pd_Timestamp v of
        Inr analysis_dt_ts \<Rightarrow> Inr (to_datetime64 analysis_dt_ts)
      | Inl error \<Rightarrow> Inl (ValueError (CannotConvert v error)))"

text \<open>Python's \<open>%\<close> on integers takes the divisor's sign, as \<open>mod\<close> does, and raises at 0.\<close>

definition bin_size_minutes_divides :: "int \<Rightarrow> exn + int" where
  "bin_size_minutes_divides v =
     (if v = 0 then Inl ZeroDivisionError
      else if 1440 mod v > 0
      then Inl (ValueError (Message ''bin_size_minutes must divide into 1440 with no remainder''))
      else Inr v)"

subsection \<open>How pydantic validates the fields\<close>

text \<open>
  Each field is validated in the order of the class. A \<open>ValueError\<close> of a validator is
  recorded and the next field is validated; any other exception ends the call. A field
  left out takes its default, which is not validated.
\<close>

definition validated_field :: "string \<Rightarrow> exn + 'a \<Rightarrow> exn + (line_error list + 'a)" where
  "validated_field name r =
     (case r of
        Inr v \<Rightarrow> Inr (Inr v)
      | Inl (ValueError e) \<Rightarrow> Inr (Inl [ValueErrorAt name e])
      | Inl x \<Rightarrow> Inl x)"

definition both ::
  "exn + (line_error list + 'a) \<Rightarrow> exn + (line_error list + 'b) \<Rightarrow>
   exn + (line_error list + 'a \<times> 'b)" where
  "both r1 r2 =
     (case r1 of
        Inl x \<Rightarrow> Inl x
      | Inr v1 \<Rightarrow>
          (case r2 of
             Inl x \<Rightarrow> Inl x
           | Inr v2 \<Rightarrow>
               Inr (case v1 of
                      Inl e1 \<Rightarrow> (case v2 of Inl e2 \<Rightarrow> Inl (e1 @ e2) | Inr b \<Rightarrow> Inl e1)
                    | Inr a \<Rightarrow> (case v2 of Inl e2 \<Rightarrow> Inl e2 | Inr b \<Rightarrow> Inr (a, b)))))"

definition optional ::
  "'a \<Rightarrow> 'b option \<Rightarrow> ('b \<Rightarrow> exn + (line_error list + 'a)) \<Rightarrow> exn + (line_error list + 'a)" where
  "optional dflt arg validate = (case arg of None \<Rightarrow> Inr (Inr dflt) | Some v \<Rightarrow> validate v)"

definition or_default :: "'a \<Rightarrow> 'a option \<Rightarrow> 'a" where
  "or_default dflt arg = (case arg of None \<Rightarrow> dflt | Some v \<Rightarrow> v)"

text \<open>
  \<open>Tuple[confloat(ge=0.0, le=1.0)] | List[confloat(ge=0.0, le=1.0)]\<close>: the first member
  is a tuple of exactly one bounded float, the second a list of any length. A value
  passes when every element is within the bounds: a one-element tuple stays a tuple, any
  other tuple is taken by the list member (as a list), a list stays a list. Otherwise
  each offending element is reported.
\<close>

definition confloat_ok :: "pyfloat \<Rightarrow> bool" where
  "confloat_ok p = (float_ge p 0 \<and> float_le p 1)"

definition out_of_range :: "pyfloat list \<Rightarrow> line_error list" where
  "out_of_range xs =
     map (\<lambda>(i, p). PercentileOutOfRange i p)
       (filter (\<lambda>(i, p). \<not> confloat_ok p) (zip [0..<length xs] xs))"

definition validate_percentiles :: "float_seq \<Rightarrow> exn + (line_error list + float_seq)" where
  "validate_percentiles v =
     (if out_of_range (items v) \<noteq> [] then Inr (Inl (out_of_range (items v)))
      else (case v of
              PyTuple xs \<Rightarrow> if length xs = 1 then Inr (Inr (PyTuple xs)) else Inr (Inr (PyList xs))
            | PyList xs \<Rightarrow> Inr (Inr (PyList xs))))"

definition default_percentiles :: float_seq where
  "default_percentiles =
     PyTuple [Finite 0.25, Finite 0.5, Finite 0.75, Finite 0.95, Finite 0.99]"

definition field_values ::
  "(dt_like \<Rightarrow> string + Timestamp) \<Rightarrow> DataFrame \<Rightarrow> kwargs \<Rightarrow>
   exn + (line_error list +
     string \<times> string \<times> datetime64 \<times> datetime64 \<times> string option \<times> int \<times> string option \<times> float_seq)" where
  "field_values pd_Timestamp df kw =
     both (validated_field ''in_field'' (field_exists_str df (kw_in_field kw)))
    (both (validated_field ''out_field'' (field_exists_str df (kw_out_field kw)))
    (both (validated_field ''start_analysis_dt''
             (validate_start_end_date pd_Timestamp (kw_start_analysis_dt kw)))
    (both (validated_field ''end_analysis_dt''
             (validate_start_end_date pd_Timestamp (kw_end_analysis_dt kw)))
    (both (optional None (kw_cat_field kw)
             (\<lambda>c. validated_field ''cat_field'' (field_exists df (Some c))))
    (both (optional 60 (kw_bin_size_minutes kw)
             (\<lambda>v. validated_field ''bin_size_minutes'' (bin_size_minutes_divides v)))
    (both (optional None (kw_occ_weight_field kw)
             (\<lambda>c. validated_field ''occ_weight_field'' (field_exists df (Some c))))
          (optional default_percentiles (kw_percentiles kw) validate_percentiles)))))))"

definition validate_fields ::
  "(dt_like \<Rightarrow> string + Timestamp) \<Rightarrow> DataFrame \<Rightarrow> kwargs \<Rightarrow>
   exn + (line_error list + 'h Scenario)" where
  "validate_fields pd_Timestamp df kw =
     (case field_values pd_Timestamp df kw of
        Inl x \<Rightarrow> Inl x
      | Inr (Inl errors) \<Rightarrow> Inr (Inl errors)
      | Inr (Inr (in_f, out_f, start_dt, end_dt, cat_f, bin_size, occ_f, pcts)) \<Rightarrow>
          Inr (Inr
            \<lparr>scenario_name = kw_scenario_name kw,
             stops_df = kw_stops_df kw,
             in_field = in_f,
             out_field = out_f,
             start_analysis_dt = start_dt,
             end_analysis_dt = end_dt,
             cat_field = cat_f,
             bin_size_minutes = bin_size,
             cats_to_exclude = kw_cats_to_exclude kw,
             occ_weight_field = occ_f,
             percentiles = pcts,
             nonstationary_stats = or_default True (kw_nonstationary_stats kw),
             stationary_stats = or_default True (kw_stationary_stats kw),
             edge_bins = or_default FRACTIONAL (kw_edge_bins kw),
             output_path = or_default ''.'' (kw_output_path kw),
             export_bydatetime_csv = or_default False (kw_export_bydatetime_csv kw),
             export_summaries_csv = or_default False (kw_export_summaries_csv kw),
             make_all_dow_plots = or_default True (kw_make_all_dow_plots kw),
             make_all_week_plots = or_default True (kw_make_all_week_plots kw),
             export_all_dow_plots = or_default False (kw_export_all_dow_plots kw),
             export_all_week_plots = or_default False (kw_export_all_week_plots kw),
             cap = kw_cap kw,
             xlabel = or_default (Some ''Hour'') (kw_xlabel kw),
             ylabel = or_default (Some ''Patients'') (kw_ylabel kw),
             verbosity = or_default (VerbosityEnum_value WARNING) (kw_verbosity kw),
             stops_preprocessed_df = None,
             hills = None\<rparr>))"

subsection \<open>Validators of the whole model\<close>

text \<open>
  The two \<open>mode='after'\<close> validators run once every field is valid, in the order of
  the class: \<open>date_relationship\<close>, then \<open>preprocess_stops_df\<close>.
\<close>

definition date_relationship :: "'h Scenario \<Rightarrow> exn + 'h Scenario" where
  "date_relationship self =
     (if dt_le (end_analysis_dt self) (start_analysis_dt self)
      then Inl (ValueError (Message ''end date must be > start date''))
      else Inr self)"

text \<open>
  The filter of \<open>preprocess_stops_df\<close>, on the frame \<open>p\<close> being preprocessed:
  \<open>(p[in] < end) & (~p[in].isna()) & (~p[out].isna()) & (p[out] >= start)\<close>.
\<close>

definition overlap_mask ::
  "DataFrame \<Rightarrow> string \<Rightarrow> string \<Rightarrow> datetime64 \<Rightarrow> datetime64 \<Rightarrow> exn + bool list" where
  "overlap_mask p in_f out_f start_dt end_dt =
     and_then (getitem p in_f) (\<lambda>s1.
     and_then (series_lt s1 end_dt) (\<lambda>m1.
     and_then (getitem p in_f) (\<lambda>s2.
     and_then (getitem p out_f) (\<lambda>s3.
     and_then (getitem p out_f) (\<lambda>s4.
     and_then (series_ge s4 start_dt) (\<lambda>m4.
       Inr (mask_and (mask_and (mask_and m1 (mask_not (isna s2))) (mask_not (isna s3))) m4)))))))"

definition preprocess_stops_df :: "heap \<Rightarrow> 'h Scenario \<Rightarrow> (exn + 'h Scenario) \<times> heap" where
  "preprocess_stops_df st self =
     (case getitem (deref st (stops_df self)) (in_field self) of
        Inl x \<Rightarrow> (Inl x, st)
      | Inr in_s \<Rightarrow>
     (case getitem (deref st (stops_df self)) (out_field self) of
        Inl x \<Rightarrow> (Inl x, st)
      | Inr out_s \<Rightarrow>
     (let num_recs_missing_entry_ts = mask_sum (isna in_s);
          num_recs_missing_exit_ts = mask_sum (isna out_s);
          st1 = (if num_recs_missing_entry_ts > 0
                 then logger_warning st (MissingEntry num_recs_missing_entry_ts) else st);
          st2 = (if num_recs_missing_exit_ts > 0
                 then logger_warning st1 (MissingExit num_recs_missing_exit_ts) else st1);
          (p, st3) = alloc st2 (DataFrame_of_dict
                       (AList.update (out_field self) out_s
                         (AList.update (in_field self) in_s [])))
      in
     (case (case cat_field self of
              None \<Rightarrow> Inr st3
            | Some c \<Rightarrow>
                and_then (getitem (deref st3 (stops_df self)) c)
                  (\<lambda>cat_s. Inr (assign st3 p (setitem (deref st3 p) c cat_s)))) of
        Inl x \<Rightarrow> (Inl x, st3)
      | Inr st4 \<Rightarrow>
     (case overlap_mask (deref st4 p) (in_field self) (out_field self)
             (start_analysis_dt self) (end_analysis_dt self) of
        Inl x \<Rightarrow> (Inl x, st4)
      | Inr m \<Rightarrow>
          (let (q, st5) = alloc st4 (loc (deref st4 p) m);
               (r, st6) = alloc st5 (reset_index_drop (deref st5 q))
           in (Inr (self\<lparr>stops_preprocessed_df := Some r\<rparr>), st6)))))))"

definition model_validator :: "exn + 'a \<Rightarrow> exn + 'a" where
  "model_validator r =
     (case r of
        Inl (ValueError e) \<Rightarrow> Inl (ValidationError [ValueErrorAt [] e])
      | _ \<Rightarrow> r)"

subsection \<open>Construction\<close>

text \<open>
  \<open>Scenario(**kwargs)\<close> on a heap: the exception raised or the new object, and the heap
  afterwards.
\<close>

definition Scenario_init ::
  "(dt_like \<Rightarrow> string + Timestamp) \<Rightarrow> heap \<Rightarrow> kwargs \<Rightarrow> (exn + 'h Scenario) \<times> heap" where
  "Scenario_init pd_Timestamp st kw =
     (case validate_fields pd_Timestamp (deref st (kw_stops_df kw)) kw of
        Inl x \<Rightarrow> (Inl x, st)
      | Inr (Inl errors) \<Rightarrow> (Inl (ValidationError errors), st)
      | Inr (Inr self) \<Rightarrow>
          (case model_validator (date_relationship self) of
             Inl x \<Rightarrow> (Inl x, st)
           | Inr self1 \<Rightarrow>
               (case preprocess_stops_df st self1 of
                  (r, st') \<Rightarrow> (model_validator r, st'))))"

section \<open>Queries\<close>

text \<open>
  \<open>hm.hills.get_plot\<close> and \<open>hm.hills.get_summary_df\<close> belong to another module: they
  are parameters of the two methods that call them.
\<close>

definition get_plot ::
  "('h option \<Rightarrow> string \<Rightarrow> string \<Rightarrow> 'p) \<Rightarrow> 'h Scenario \<Rightarrow> string \<Rightarrow> string \<Rightarrow> 'p" where
  "get_plot hills_get_plot self flow_metric day_of_week =
     hills_get_plot (hills self) flow_metric day_of_week"

definition get_summary_df ::
  "('h option \<Rightarrow> string \<Rightarrow> bool \<Rightarrow> bool \<Rightarrow> 'd) \<Rightarrow> 'h Scenario \<Rightarrow> string \<Rightarrow> bool \<Rightarrow> bool \<Rightarrow> 'd" where
  "get_summary_df hills_get_summary_df self flow_metric by_category stationary =
     hills_get_summary_df (hills self) ''o'' by_category stationary"

section \<open>create\_scenario\<close>

text \<open>
  A dict is the list of its items in insertion order, its keys distinct.
  \<open>params.update(d)\<close> stores the items of \<open>d\<close> one after the other.
\<close>

type_synonym 'v dict = "(string \<times> 'v) list"

definition dict_update :: "'v dict \<Rightarrow> 'v dict \<Rightarrow> 'v dict" where
  "dict_update params d = fold (\<lambda>(k, v). AList.update k v) d params"

text \<open>
  \<open>toml\<close> is \<open>None\<close> when \<open>toml_path\<close> is \<open>None\<close>, and otherwise what opening and
  loading the file gives: the dict read, or the exception raised. \<open>Scenario\<close> is the
  constructor, called on the merged parameters.
\<close>

definition create_scenario ::
  "('v dict \<Rightarrow> exn + 's) \<Rightarrow> 'v dict option \<Rightarrow> (exn + 'v dict) option \<Rightarrow> 'v dict \<Rightarrow> exn + 's" where
  "create_scenario Scenario params_dict toml kwargs =
     (let params = [];
          params = (case params_dict of None \<Rightarrow> params | Some d \<Rightarrow> dict_update params d)
      in and_then (case toml of
                     None \<Rightarrow> Inr params
                   | Some loaded \<Rightarrow>
                       and_then loaded (\<lambda>params_toml_dict. Inr (dict_update params params_toml_dict)))
           (\<lambda>params.
              let params = (if length kwargs > 0 then dict_update params kwargs else params)
              in Scenario params))"

section \<open>The summary tables\<close>

text \<open>
  Modelled from the spec: \<open>hm.hills.get_summary_df\<close> of the module \<open>hills\<close>, which
  is not part of these sources. The spec's query facade returns the slice of the summary
  tables selected by metric name (arrivals, departures or occupancy, or an abbreviation
  of one), by-category flag and stationary flag, and an empty result when nothing has
  been computed yet. The tables are kept by metric and the two flags. An abbreviation is read here as a non-empty start of the name; the
  three names start with different letters, so one letter is enough.
\<close>

datatype flow_metric = Arrivals | Departures | Occupancy

definition metric_of :: "string \<Rightarrow> flow_metric option" where
  "metric_of s =
     (if s = [] then None
      else if prefix s ''arrivals'' then Some Arrivals
      else if prefix s ''departures'' then Some Departures
      else if prefix s ''occupancy'' then Some Occupancy
      else None)"

type_synonym 'r summaries = "((flow_metric \<times> bool \<times> bool) \<times> 'r list) list"

definition hills_get_summary_df ::
  "'r summaries option \<Rightarrow> string \<Rightarrow> bool \<Rightarrow> bool \<Rightarrow> 'r list" where
  "hills_get_summary_df hills_dict flow_metric by_category stationary =
     (case hills_dict of
        None \<Rightarrow> []
      | Some tables \<Rightarrow>
          (case metric_of flow_metric of
             None \<Rightarrow> []
           | Some m \<Rightarrow>
               (case map_of tables (m, by_category, stationary) of
                  None \<Rightarrow> []
                | Some table \<Rightarrow> table)))"

section \<open>Notions used in the statements\<close>

text \<open>
  A frame is well formed when its column labels are distinct and every column is as
  long as the index: the frames pandas builds from one table of visits.
\<close>

definition wf_frame :: "DataFrame \<Rightarrow> bool" where
  "wf_frame df =
     (distinct (df_columns df) \<and>
      list_all (\<lambda>(k, vs). length vs = length (df_index df)) (df_data df))"

definition column :: "DataFrame \<Rightarrow> string \<Rightarrow> cell list" where
  "column df c = (case map_of (df_data df) c of None \<Rightarrow> [] | Some vs \<Rightarrow> vs)"

text \<open>
  The visit records of a frame, row by row: entry cell, exit cell, and the category cell
  when there is a category column.
\<close>

definition visit_records ::
  "DataFrame \<Rightarrow> string \<Rightarrow> string \<Rightarrow> string option \<Rightarrow> (cell \<times> cell \<times> cell option) list" where
  "visit_records df in_f out_f cat_f =
     zip (column df in_f)
       (zip (column df out_f)
          (case cat_f of
             None \<Rightarrow> replicate (length (df_index df)) None
           | Some c \<Rightarrow> map Some (column df c)))"

text \<open>
  The records the claim keeps: entry and exit timestamps both present, entry strictly
  before the end of the analysis, exit at or after its start.
\<close>

fun in_window :: "datetime64 \<Rightarrow> datetime64 \<Rightarrow> cell \<times> cell \<times> cell option \<Rightarrow> bool" where
  "in_window start_dt end_dt (Time (DT e), Time (DT x), c) =
     (dt_lt (DT e) end_dt \<and> dt_ge (DT x) start_dt)"
| "in_window start_dt end_dt _ = False"

text \<open>A percentile within the closed interval from 0 to 1.\<close>

fun in_unit_interval :: "pyfloat \<Rightarrow> bool" where
  "in_unit_interval (Finite x) = (0 \<le> x \<and> x \<le> 1)"
| "in_unit_interval _ = False"

text \<open>What a field's validation raised, and the errors it recorded.\<close>

definition raised :: "exn + 'a \<Rightarrow> bool" where
  "raised r = (case r of Inl x \<Rightarrow> True | Inr v \<Rightarrow> False)"

definition reported :: "exn + (line_error list + 'a) \<Rightarrow> line_error set" where
  "reported r = (case r of Inr (Inl errors) \<Rightarrow> set errors | _ \<Rightarrow> {})"

definition proper :: "exn + (line_error list + 'a) \<Rightarrow> bool" where
  "proper r = (r \<noteq> Inr (Inl []))"

text \<open>The exceptions preprocessing can raise: none of them a \<open>ValueError\<close>.\<close>

definition benign :: "exn \<Rightarrow> bool" where
  "benign x = (x = TypeError \<or> (\<exists>k. x = KeyError k))"

definition dict_get :: "'v dict option \<Rightarrow> string \<Rightarrow> 'v option" where
  "dict_get d k = (case d of None \<Rightarrow> None | Some kvs \<Rightarrow> map_of kvs k)"

definition dict_keys :: "'v dict option \<Rightarrow> string set" where
  "dict_keys d = (case d of None \<Rightarrow> {} | Some kvs \<Rightarrow> set (map fst kvs))"

definition wf_dict :: "'v dict option \<Rightarrow> bool" where
  "wf_dict d = (case d of None \<Rightarrow> True | Some kvs \<Rightarrow> distinct (map fst kvs))"

section \<open>A worked example\<close>

text \<open>
  Six visits in the columns \<open>entry\<close>, \<open>exit\<close> and \<open>unit\<close>, analysed from 0 to 10:
  row 0 lies inside the analysis, row 1 starts after its end, row 2 has no entry
  timestamp, row 3 leaves before it enters, row 4 ends before the start and row 5 ends
  at the start.
\<close>

definition sample_df :: DataFrame where
  "sample_df =
     \<lparr>df_index = [10, 11, 12, 13, 14, 15],
      df_data =
        [(''entry'', [Time (DT 5), Time (DT 12), Time NaT, Time (DT 7), Time (DT (- 5)), Time (DT (- 3))]),
         (''exit'', [Time (DT 8), Time (DT 15), Time (DT 4), Time (DT 3), Time (DT (- 1)), Time (DT 0)]),
         (''unit'', [Obj ''A'', Obj ''B'', Obj ''A'', Obj ''B'', Obj ''A'', Obj ''B''])]\<rparr>"

definition sample_heap :: heap where
  "sample_heap = \<lparr>frames = [sample_df], warnings = []\<rparr>"

text \<open>
  A conversion for the example, in the manner of nanosecond Timestamps: a date is its
  midnight, a datetime its microseconds, and a value beyond 64 bits is out of bounds.
\<close>

definition in_bounds :: "int \<Rightarrow> string + Timestamp" where
  "in_bounds ns =
     (if - (2 ^ 63) < ns \<and> ns < 2 ^ 63 then Inr (Timestamp (DT ns))
      else Inl ''Out of bounds nanosecond timestamp'')"

fun sample_Timestamp :: "dt_like \<Rightarrow> string + Timestamp" where
  "sample_Timestamp (PyDate d) = in_bounds (d * 86400000000000)"
| "sample_Timestamp (PyDatetime us) = in_bounds (us * 1000)"
| "sample_Timestamp (PdTimestamp t) = Inr (Timestamp t)"
| "sample_Timestamp (NpDatetime64 t) = Inr (Timestamp t)"

definition sample_kwargs :: kwargs where
  "sample_kwargs =
     \<lparr>kw_scenario_name = ''demo'',
      kw_stops_df = 0,
      kw_in_field = ''entry'',
      kw_out_field = ''exit'',
      kw_start_analysis_dt = NpDatetime64 (DT 0),
      kw_end_analysis_dt = NpDatetime64 (DT 10),
      kw_cat_field = None,
      kw_bin_size_minutes = None,
      kw_cats_to_exclude = None,
      kw_occ_weight_field = None,
      kw_percentiles = None,
      kw_nonstationary_stats = None,
      kw_stationary_stats = None,
      kw_edge_bins = None,
      kw_output_path = None,
      kw_export_bydatetime_csv = None,
      kw_export_summaries_csv = None,
      kw_make_all_dow_plots = None,
      kw_make_all_week_plots = None,
      kw_export_all_dow_plots = None,
      kw_export_all_week_plots = None,
      kw_cap = None,
      kw_xlabel = None,
      kw_ylabel = None,
      kw_verbosity = None\<rparr>"

text \<open>Summary tables that differ by metric, to tell the slices apart.\<close>

definition sample_tables :: "nat summaries" where
  "sample_tables =
     [((Arrivals, True, False), [1]),
      ((Departures, True, False), [2]),
      ((Occupancy, True, False), [3])]"

text \<open>The Scenario the example constructs, and the heap it leaves.\<close>

definition sample_scenario :: "nat summaries Scenario" where
  "sample_scenario =
     \<lparr>scenario_name = ''demo'',
      stops_df = 0,
      in_field = ''entry'',
      out_field = ''exit'',
      start_analysis_dt = DT 0,
      end_analysis_dt = DT 10,
      cat_field = None,
      bin_size_minutes = 60,
      cats_to_exclude = None,
      occ_weight_field = None,
      percentiles = PyTuple [Finite 0.25, Finite 0.5, Finite 0.75, Finite 0.95, Finite 0.99],
      nonstationary_stats = True,
      stationary_stats = True,
      edge_bins = FRACTIONAL,
      output_path = ''.'',
      export_bydatetime_csv = False,
      export_summaries_csv = False,
      make_all_dow_plots = True,
      make_all_week_plots = True,
      export_all_dow_plots = False,
      export_all_week_plots = False,
      cap = None,
      xlabel = Some ''Hour'',
      ylabel = Some ''Patients'',
      verbosity = 0,
      stops_preprocessed_df = Some 3,
      hills = None\<rparr>"

definition sample_heap_after :: heap where
  "sample_heap_after =
     \<lparr>frames =
        [sample_df,
         \<lparr>df_index = [10, 11, 12, 13, 14, 15],
          df_data =
            [(''entry'', [Time (DT 5), Time (DT 12), Time NaT, Time (DT 7), Time (DT (- 5)), Time (DT (- 3))]),
             (''exit'', [Time (DT 8), Time (DT 15), Time (DT 4), Time (DT 3), Time (DT (- 1)), Time (DT 0)])]\<rparr>,
         \<lparr>df_index = [10, 13, 15],
          df_data =
            [(''entry'', [Time (DT 5), Time (DT 7), Time (DT (- 3))]),
             (''exit'', [Time (DT 8), Time (DT 3), Time (DT 0)])]\<rparr>,
         \<lparr>df_index = [0, 1, 2],
          df_data =
            [(''entry'', [Time (DT 5), Time (DT 7), Time (DT (- 3))]),
             (''exit'', [Time (DT 8), Time (DT 3), Time (DT 0)])]\<rparr>],
      warnings = [MissingEntry 1]\<rparr>"

section \<open>Validation of the fields\<close>

lemma raised_both: "raised (both r1 r2) \<longleftrightarrow> raised r1 \<or> raised r2"
  by (auto simp: raised_def both_def split: sum.splits)

lemma reported_both:
  "\<not> raised r1 \<Longrightarrow> \<not> raised r2 \<Longrightarrow> reported (both r1 r2) = reported r1 \<union> reported r2"
  by (auto simp: raised_def reported_def both_def split: sum.splits)

lemma proper_both: "proper r1 \<Longrightarrow> proper r2 \<Longrightarrow> proper (both r1 r2)"
  by (auto simp: proper_def both_def split: sum.splits)

lemma both_valid:
  "both r1 r2 = Inr (Inr ab) \<longleftrightarrow> r1 = Inr (Inr (fst ab)) \<and> r2 = Inr (Inr (snd ab))"
  by (cases ab) (auto simp: both_def split: sum.splits)

lemma valid_iff:
  "proper r \<Longrightarrow> (\<exists>a. r = Inr (Inr a)) \<longleftrightarrow> \<not> raised r \<and> reported r = {}"
  by (auto simp: proper_def raised_def reported_def split: sum.splits)

lemma invalid_iff:
  "proper r \<Longrightarrow> (\<exists>errors. r = Inr (Inl errors)) \<longleftrightarrow> \<not> raised r \<and> reported r \<noteq> {}"
  by (auto simp: proper_def raised_def reported_def split: sum.splits)

lemma field_exists_str_cases:
  "field_exists_str df c =
     (if c \<in> set (df_columns df) then Inr c
      else Inl (ValueError (Message (c @ '' is not a column in the dataframe''))))"
  by (simp add: field_exists_str_def field_exists_def and_then_def)

lemma validated_str_field:
  "validated_field name (field_exists_str df c) =
     (if c \<in> set (df_columns df) then Inr (Inr c)
      else Inr (Inl [ValueErrorAt name (Message (c @ '' is not a column in the dataframe''))]))"
  by (simp add: field_exists_str_cases validated_field_def)

lemma validated_opt_field:
  "optional None arg (\<lambda>c. validated_field name (field_exists df (Some c))) =
     (case arg of None \<Rightarrow> Inr (Inr None)
      | Some c \<Rightarrow> if c \<in> set (df_columns df) then Inr (Inr (Some c))
          else Inr (Inl [ValueErrorAt name (Message (c @ '' is not a column in the dataframe''))]))"
  by (simp add: optional_def field_exists_def validated_field_def split: option.splits)

lemma validated_date:
  "validated_field name (validate_start_end_date T v) =
     (case T v of Inr ts \<Rightarrow> Inr (Inr (to_datetime64 ts))
      | Inl msg \<Rightarrow> Inr (Inl [ValueErrorAt name (CannotConvert v msg)]))"
  by (simp add: validate_start_end_date_def validated_field_def split: sum.splits)

lemma validated_bin_size:
  "optional 60 arg (\<lambda>v. validated_field name (bin_size_minutes_divides v)) =
     (case arg of None \<Rightarrow> Inr (Inr 60)
      | Some v \<Rightarrow> if v = 0 then Inl ZeroDivisionError
          else if 1440 mod v > 0
          then Inr (Inl [ValueErrorAt name
                 (Message ''bin_size_minutes must divide into 1440 with no remainder'')])
          else Inr (Inr v))"
  by (simp add: optional_def bin_size_minutes_divides_def validated_field_def split: option.splits)

lemma validated_percentiles:
  "optional default_percentiles arg validate_percentiles =
     (case arg of None \<Rightarrow> Inr (Inr default_percentiles)
      | Some v \<Rightarrow> if out_of_range (items v) \<noteq> [] then Inr (Inl (out_of_range (items v)))
          else Inr (Inr (case v of PyTuple xs \<Rightarrow> if length xs = 1 then PyTuple xs else PyList xs
                          | PyList xs \<Rightarrow> PyList xs)))"
  by (simp add: optional_def validate_percentiles_def split: option.splits float_seq.splits)

lemmas fields = validated_str_field validated_opt_field validated_date validated_bin_size validated_percentiles

lemma raised_field_values:
  "raised (field_values T df kw) \<longleftrightarrow> kw_bin_size_minutes kw = Some 0"
  unfolding field_values_def raised_both fields
  by (auto simp: raised_def split: option.splits sum.splits)

lemma proper_field_values: "proper (field_values T df kw)"
  unfolding field_values_def fields
  by (intro proper_both) (auto simp: proper_def split: option.splits sum.splits)


lemma reported_both':
  "\<not> raised (both r1 r2) \<Longrightarrow> reported (both r1 r2) = reported r1 \<union> reported r2"
  by (simp add: raised_both reported_both)

lemma not_raised_bothD:
  "\<not> raised (both r1 r2) \<Longrightarrow> \<not> raised r2"
  by (simp add: raised_both)

lemma reported_field_values:
  assumes "kw_bin_size_minutes kw \<noteq> Some 0"
  shows "reported (field_values T df kw) =
     reported (validated_field ''in_field'' (field_exists_str df (kw_in_field kw))) \<union>
     (reported (validated_field ''out_field'' (field_exists_str df (kw_out_field kw))) \<union>
     (reported (validated_field ''start_analysis_dt''
             (validate_start_end_date T (kw_start_analysis_dt kw))) \<union>
     (reported (validated_field ''end_analysis_dt''
             (validate_start_end_date T (kw_end_analysis_dt kw))) \<union>
     (reported (optional None (kw_cat_field kw)
             (\<lambda>c. validated_field ''cat_field'' (field_exists df (Some c)))) \<union>
     (reported (optional 60 (kw_bin_size_minutes kw)
             (\<lambda>v. validated_field ''bin_size_minutes'' (bin_size_minutes_divides v))) \<union>
     (reported (optional None (kw_occ_weight_field kw)
             (\<lambda>c. validated_field ''occ_weight_field'' (field_exists df (Some c)))) \<union>
      reported (optional default_percentiles (kw_percentiles kw) validate_percentiles)))))))"
proof -
  have nr: "\<not> raised (field_values T df kw)"
    using assms by (simp add: raised_field_values)
  show ?thesis
    using nr unfolding field_values_def
    by (simp add: raised_both reported_both)
qed

lemma getitem_raises: "getitem df c = Inl x \<Longrightarrow> benign x"
  by (auto simp: getitem_def benign_def split: option.splits)

lemma traverse_lt_raises: "traverse (cell_lt d) xs = Inl x \<Longrightarrow> benign x"
proof (induction xs)
  case Nil
  then show ?case by simp
next
  case (Cons c cs)
  then show ?case by (cases c) (auto simp: benign_def split: sum.splits)
qed

lemma traverse_ge_raises: "traverse (cell_ge d) xs = Inl x \<Longrightarrow> benign x"
proof (induction xs)
  case Nil
  then show ?case by simp
next
  case (Cons c cs)
  then show ?case by (cases c) (auto simp: benign_def split: sum.splits)
qed

lemma and_then_raises:
  "and_then r f = Inl x \<Longrightarrow> r = Inl x \<or> (\<exists>v. r = Inr v \<and> f v = Inl x)"
  by (auto simp: and_then_def split: sum.splits)

lemma overlap_mask_raises:
  "overlap_mask p i o' s e = Inl x \<Longrightarrow> benign x"
  unfolding overlap_mask_def series_lt_def series_ge_def
  by (auto dest!: and_then_raises dest: getitem_raises traverse_lt_raises traverse_ge_raises)

lemma preprocess_raises:
  "preprocess_stops_df st self = (Inl x, st') \<Longrightarrow> benign x"
  unfolding preprocess_stops_df_def
  by (auto simp: Let_def split: sum.splits prod.splits option.splits
      dest!: and_then_raises dest: getitem_raises overlap_mask_raises)

lemma preprocess_returns:
  "preprocess_stops_df st self = (Inr self', st') \<Longrightarrow>
     \<exists>r. self' = self\<lparr>stops_preprocessed_df := Some r\<rparr>"
  unfolding preprocess_stops_df_def
  by (auto simp: Let_def split: sum.splits prod.splits option.splits)

section \<open>Construction, step by step\<close>

lemma Scenario_init_raised:
  "field_values T (deref st (kw_stops_df kw)) kw = Inl x \<Longrightarrow>
     Scenario_init T st kw = (Inl x, st)"
  by (simp add: Scenario_init_def validate_fields_def)

lemma Scenario_init_invalid:
  "field_values T (deref st (kw_stops_df kw)) kw = Inr (Inl errors) \<Longrightarrow>
     Scenario_init T st kw = (Inl (ValidationError errors), st)"
  by (simp add: Scenario_init_def validate_fields_def)

lemma validate_fields_valid:
  "validate_fields T df kw = Inr (Inr self) \<Longrightarrow> \<exists>vals. field_values T df kw = Inr (Inr vals)"
  by (auto simp: validate_fields_def split: sum.splits)

lemma field_values_valid:
  "field_values T df kw = Inr (Inr vals) \<Longrightarrow> \<exists>self. validate_fields T df kw = Inr (Inr self)"
  by (auto simp: validate_fields_def split: sum.splits prod.splits)

lemma Scenario_init_after:
  "validate_fields T (deref st (kw_stops_df kw)) kw = Inr (Inr self) \<Longrightarrow>
     Scenario_init T st kw =
       (if dt_le (end_analysis_dt self) (start_analysis_dt self)
        then (Inl (ValidationError [ValueErrorAt [] (Message ''end date must be > start date'')]), st)
        else (model_validator (fst (preprocess_stops_df st self)), snd (preprocess_stops_df st self)))"
  by (cases "preprocess_stops_df st self")
     (simp add: Scenario_init_def date_relationship_def model_validator_def)

lemma out_of_range_entries: "ValueErrorAt name e \<notin> set (out_of_range xs)"
  by (auto simp: out_of_range_def)

lemma model_validator_benign:
  "benign x \<Longrightarrow> model_validator (Inl x) = Inl x"
  by (auto simp: benign_def model_validator_def)

lemma preprocess_outcome:
  "model_validator (fst (preprocess_stops_df st self)) = fst (preprocess_stops_df st self)"
proof (cases "preprocess_stops_df st self")
  case (Pair r st')
  show ?thesis
  proof (cases r)
    case (Inl x)
    with Pair have "benign x" by (auto dest: preprocess_raises)
    with Pair Inl show ?thesis by (simp add: model_validator_benign)
  next
    case (Inr s)
    with Pair show ?thesis by (simp add: model_validator_def)
  qed
qed

lemma preprocess_no_ValidationError:
  "fst (preprocess_stops_df st self) \<noteq> Inl (ValidationError errors)"
proof
  assume "fst (preprocess_stops_df st self) = Inl (ValidationError errors)"
  then have "preprocess_stops_df st self =
      (Inl (ValidationError errors), snd (preprocess_stops_df st self))"
    by (simp add: prod_eq_iff)
  then have "benign (ValidationError errors)" by (rule preprocess_raises)
  then show False by (simp add: benign_def)
qed

subsection \<open>What a valid set of fields gives\<close>

lemma field_values_components:
  "field_values T df kw = Inr (Inr (a, b, c, d, e, f, g, h)) \<longleftrightarrow>
     validated_field ''in_field'' (field_exists_str df (kw_in_field kw)) = Inr (Inr a) \<and>
     validated_field ''out_field'' (field_exists_str df (kw_out_field kw)) = Inr (Inr b) \<and>
     validated_field ''start_analysis_dt''
       (validate_start_end_date T (kw_start_analysis_dt kw)) = Inr (Inr c) \<and>
     validated_field ''end_analysis_dt''
       (validate_start_end_date T (kw_end_analysis_dt kw)) = Inr (Inr d) \<and>
     optional None (kw_cat_field kw)
       (\<lambda>c. validated_field ''cat_field'' (field_exists df (Some c))) = Inr (Inr e) \<and>
     optional 60 (kw_bin_size_minutes kw)
       (\<lambda>v. validated_field ''bin_size_minutes'' (bin_size_minutes_divides v)) = Inr (Inr f) \<and>
     optional None (kw_occ_weight_field kw)
       (\<lambda>c. validated_field ''occ_weight_field'' (field_exists df (Some c))) = Inr (Inr g) \<and>
     optional default_percentiles (kw_percentiles kw) validate_percentiles = Inr (Inr h)"
  unfolding field_values_def by (simp add: both_valid)

lemma validate_fields_Inr:
  assumes "validate_fields T df kw = Inr (Inr self)"
  shows "field_values T df kw =
           Inr (Inr (in_field self, out_field self, start_analysis_dt self, end_analysis_dt self,
                     cat_field self, bin_size_minutes self, occ_weight_field self, percentiles self))"
    and "scenario_name self = kw_scenario_name kw"
    and "stops_df self = kw_stops_df kw"
    and "cats_to_exclude self = kw_cats_to_exclude kw"
    and "nonstationary_stats self = or_default True (kw_nonstationary_stats kw)"
    and "stationary_stats self = or_default True (kw_stationary_stats kw)"
    and "edge_bins self = or_default FRACTIONAL (kw_edge_bins kw)"
    and "stops_preprocessed_df self = None"
    and "hills self = None"
  using assms
  by (auto simp: validate_fields_def split: sum.splits prod.splits)

lemma valid_in_field:
  "validate_fields T df kw = Inr (Inr self) \<Longrightarrow>
     in_field self = kw_in_field kw \<and> kw_in_field kw \<in> set (df_columns df)"
  by (drule validate_fields_Inr(1))
     (simp add: field_values_components fields split: if_splits)

lemma valid_out_field:
  "validate_fields T df kw = Inr (Inr self) \<Longrightarrow>
     out_field self = kw_out_field kw \<and> kw_out_field kw \<in> set (df_columns df)"
  by (drule validate_fields_Inr(1))
     (simp add: field_values_components fields split: if_splits)

lemma valid_cat_field:
  "validate_fields T df kw = Inr (Inr self) \<Longrightarrow>
     cat_field self = kw_cat_field kw \<and> (\<forall>c. kw_cat_field kw = Some c \<longrightarrow> c \<in> set (df_columns df))"
  by (drule validate_fields_Inr(1))
     (auto simp add: field_values_components fields split: if_splits option.splits)

lemma valid_occ_weight_field:
  "validate_fields T df kw = Inr (Inr self) \<Longrightarrow>
     occ_weight_field self = kw_occ_weight_field kw"
  by (drule validate_fields_Inr(1))
     (auto simp add: field_values_components fields split: if_splits option.splits)

lemma valid_dates:
  "validate_fields T df kw = Inr (Inr self) \<Longrightarrow>
     \<exists>ts te. T (kw_start_analysis_dt kw) = Inr ts \<and> T (kw_end_analysis_dt kw) = Inr te \<and>
       start_analysis_dt self = to_datetime64 ts \<and> end_analysis_dt self = to_datetime64 te"
  by (drule validate_fields_Inr(1))
     (auto simp add: field_values_components fields split: sum.splits)

lemma valid_bin_size:
  "validate_fields T df kw = Inr (Inr self) \<Longrightarrow>
     bin_size_minutes self = (case kw_bin_size_minutes kw of None \<Rightarrow> 60 | Some v \<Rightarrow> v)"
  by (drule validate_fields_Inr(1))
     (auto simp add: field_values_components fields split: if_splits option.splits)

lemma valid_percentiles:
  assumes "validate_fields T df kw = Inr (Inr self)"
  shows "case kw_percentiles kw of None \<Rightarrow> percentiles self = default_percentiles
      | Some v \<Rightarrow> items (percentiles self) = items v \<and> out_of_range (items v) = []"
proof -
  have "optional default_percentiles (kw_percentiles kw) validate_percentiles =
          Inr (Inr (percentiles self))"
    using validate_fields_Inr(1) [OF assms] by (simp add: field_values_components)
  then show ?thesis
    unfolding validated_percentiles
    by (cases "kw_percentiles kw"; cases "percentiles self")
       (auto split: if_splits float_seq.splits)
qed

lemma Scenario_init_valid:
  assumes "validate_fields T (deref st (kw_stops_df kw)) kw = Inr (Inr self)"
  shows "Scenario_init T st kw =
       (if dt_le (end_analysis_dt self) (start_analysis_dt self)
        then (Inl (ValidationError [ValueErrorAt [] (Message ''end date must be > start date'')]), st)
        else preprocess_stops_df st self)"
  by (simp add: Scenario_init_after [OF assms] preprocess_outcome)

lemma Scenario_init_Inr:
  assumes "Scenario_init T st kw = (Inr self, st')"
  shows "\<exists>s0 r. validate_fields T (deref st (kw_stops_df kw)) kw = Inr (Inr s0) \<and>
           \<not> dt_le (end_analysis_dt s0) (start_analysis_dt s0) \<and>
           preprocess_stops_df st s0 = (Inr self, st') \<and>
           self = s0\<lparr>stops_preprocessed_df := Some r\<rparr>"
proof (cases "validate_fields T (deref st (kw_stops_df kw)) kw :: exn + (line_error list + 'a Scenario)")
  case (Inl x)
  with assms show ?thesis by (simp add: Scenario_init_def)
next
  case (Inr v)
  show ?thesis
  proof (cases v)
    case (Inl errors)
    with Inr assms show ?thesis by (simp add: Scenario_init_def)
  next
    case (Inr s0)
    with \<open>validate_fields T (deref st (kw_stops_df kw)) kw = Inr v\<close>
    have valid: "validate_fields T (deref st (kw_stops_df kw)) kw = Inr (Inr s0)" by simp
    from assms have run: "(if dt_le (end_analysis_dt s0) (start_analysis_dt s0)
        then (Inl (ValidationError [ValueErrorAt [] (Message ''end date must be > start date'')]), st)
        else preprocess_stops_df st s0) = (Inr self, st')"
      by (simp add: Scenario_init_valid [OF valid])
    then have ok: "\<not> dt_le (end_analysis_dt s0) (start_analysis_dt s0)"
      by (auto split: if_splits)
    with run have pre: "preprocess_stops_df st s0 = (Inr self, st')" by simp
    from preprocess_returns [OF pre] obtain r where "self = s0\<lparr>stops_preprocessed_df := Some r\<rparr>"
      by blast
    with valid ok pre show ?thesis by blast
  qed
qed

lemma confloat_ok_iff: "confloat_ok p \<longleftrightarrow> in_unit_interval p"
  by (cases p) (simp_all add: confloat_ok_def)

lemma out_of_range_iff:
  "PercentileOutOfRange i p \<in> set (out_of_range xs) \<longleftrightarrow>
     i < length xs \<and> xs ! i = p \<and> \<not> in_unit_interval p"
proof -
  have "(i, p) \<in> set (zip [0..<length xs] xs) \<longleftrightarrow> i < length xs \<and> xs ! i = p"
    using in_set_enumerate_eq [of "(i, p)" 0 xs] by (simp add: enumerate_eq_zip)
  then show ?thesis
    by (auto simp: out_of_range_def confloat_ok_iff)
qed

lemma out_of_range_nonempty:
  "out_of_range xs \<noteq> [] \<longleftrightarrow> (\<exists>p\<in>set xs. \<not> in_unit_interval p)"
proof
  assume "out_of_range xs \<noteq> []"
  then obtain e where "e \<in> set (out_of_range xs)" by (cases "out_of_range xs") auto
  then obtain i p where "e = PercentileOutOfRange i p"
    by (auto simp: out_of_range_def)
  with \<open>e \<in> set (out_of_range xs)\<close> show "\<exists>p\<in>set xs. \<not> in_unit_interval p"
    by (auto simp: out_of_range_iff)
next
  assume "\<exists>p\<in>set xs. \<not> in_unit_interval p"
  then obtain i where "i < length xs" and "\<not> in_unit_interval (xs ! i)"
    by (auto simp: in_set_conv_nth)
  then have "PercentileOutOfRange i (xs ! i) \<in> set (out_of_range xs)"
    by (simp add: out_of_range_iff)
  then show "out_of_range xs \<noteq> []" by auto
qed

subsection \<open>Updating a dict\<close>

lemma map_of_dict_update:
  "distinct (map fst d) \<Longrightarrow> map_of (dict_update params d) = map_of params ++ map_of d"
  unfolding dict_update_def
proof (induction d arbitrary: params)
  case Nil
  then show ?case by simp
next
  case (Cons kv d)
  obtain k v where kv: "kv = (k, v)" by (cases kv)
  from Cons.prems kv have k: "k \<notin> fst ` set d" and d: "distinct (map fst d)" by auto
  from k have none: "map_of d k = None" by (simp add: map_of_eq_None_iff)
  have "map_of (fold (\<lambda>(k, v). AList.update k v) d (AList.update k v params)) =
          map_of (AList.update k v params) ++ map_of d"
    using Cons.IH [OF d] .
  also have "\<dots> = (map_of params)(k \<mapsto> v) ++ map_of d" by (simp add: update_conv')
  also have "\<dots> = map_of params ++ map_of (kv # d)"
    using none kv by (auto simp: map_add_def fun_eq_iff split: option.splits)
  finally show ?case by (simp only: kv fold_simps prod.case)
qed

lemma keys_dict_update:
  "fst ` set (dict_update params d) = fst ` set params \<union> fst ` set d"
  unfolding dict_update_def
proof (induction d arbitrary: params)
  case Nil
  then show ?case by simp
next
  case (Cons kv d)
  obtain k v where kv: "kv = (k, v)" by (cases kv)
  show ?case by (simp add: kv Cons.IH dom_update)
qed

lemma distinct_dict_update:
  "distinct (map fst params) \<Longrightarrow> distinct (map fst (dict_update params d))"
  unfolding dict_update_def
proof (induction d arbitrary: params)
  case Nil
  then show ?case by simp
next
  case (Cons kv d)
  obtain k v where kv: "kv = (k, v)" by (cases kv)
  from Cons.prems have "distinct (map fst (AList.update k v params))" by (simp add: distinct_update)
  from Cons.IH [OF this] show ?case by (simp add: kv)
qed

subsection \<open>What preprocessing does to the heap\<close>

lemma preprocess_success:
  assumes run: "preprocess_stops_df st self = (Inr self', st')"
    and ref: "stops_df self < length (frames st)"
  shows "\<exists>in_s out_s p m.
      getitem (frames st ! stops_df self) (in_field self) = Inr in_s \<and>
      getitem (frames st ! stops_df self) (out_field self) = Inr out_s \<and>
      (case cat_field self of
         None \<Rightarrow>
           p = DataFrame_of_dict
                 (AList.update (out_field self) out_s (AList.update (in_field self) in_s []))
       | Some c \<Rightarrow>
           (\<exists>cat_s. getitem (frames st ! stops_df self) c = Inr cat_s \<and>
              p = setitem (DataFrame_of_dict
                    (AList.update (out_field self) out_s (AList.update (in_field self) in_s [])))
                    c cat_s)) \<and>
      overlap_mask p (in_field self) (out_field self)
        (start_analysis_dt self) (end_analysis_dt self) = Inr m \<and>
      self' = self\<lparr>stops_preprocessed_df := Some (length (frames st) + 2)\<rparr> \<and>
      frames st' = frames st @ [p, loc p m, reset_index_drop (loc p m)]"
  using run ref unfolding preprocess_stops_df_def
  by (auto simp: Let_def alloc_def deref_def assign_def logger_warning_def nth_append and_then_def
      split: sum.splits option.splits if_splits prod.splits)

lemma preprocess_frames:
  "\<exists>new. frames (snd (preprocess_stops_df st self)) = frames st @ new"
  unfolding preprocess_stops_df_def
  by (auto simp: Let_def alloc_def deref_def assign_def logger_warning_def and_then_def
      split: sum.splits option.splits if_splits prod.splits)

subsection \<open>The filter, row by row\<close>

lemma select_map: "select (map P xs) xs = filter P xs"
  unfolding select_def by (induction xs) auto

lemma select_zip:
  "length m = length xs \<Longrightarrow> length xs = length ys \<Longrightarrow>
     select m (zip xs ys) = zip (select m xs) (select m ys)"
  unfolding select_def
proof (induction m xs ys rule: list_induct3)
  case Nil
  then show ?case by simp
next
  case (Cons b m x xs y ys)
  then show ?case by simp
qed

lemma length_select: "length m = length xs \<Longrightarrow> length (select m xs) = length (filter id m)"
  unfolding select_def
proof (induction m xs rule: list_induct2)
  case Nil
  then show ?case by simp
next
  case (Cons b m x xs)
  then show ?case by simp
qed

lemma select_replicate:
  "select m (replicate (length m) v) = replicate (length (filter id m)) v"
  unfolding select_def by (induction m) auto

lemma select_map_values: "select m (map f xs) = map f (select m xs)"
  unfolding select_def
proof (induction m arbitrary: xs)
  case Nil
  then show ?case by simp
next
  case (Cons b m)
  then show ?case by (cases xs) auto
qed

lemma traverse_lt:
  "traverse (cell_lt d) xs = Inr m \<Longrightarrow>
     length m = length xs \<and> (\<forall>i<length xs. \<exists>t. xs ! i = Time t \<and> m ! i = dt_lt t d)"
proof (induction xs arbitrary: m)
  case Nil
  then show ?case by simp
next
  case (Cons c cs)
  then show ?case
    by (cases c) (auto split: sum.splits simp: nth_Cons split: nat.splits)
qed

lemma traverse_ge:
  "traverse (cell_ge d) xs = Inr m \<Longrightarrow>
     length m = length xs \<and> (\<forall>i<length xs. \<exists>t. xs ! i = Time t \<and> m ! i = dt_ge t d)"
proof (induction xs arbitrary: m)
  case Nil
  then show ?case by simp
next
  case (Cons c cs)
  then show ?case
    by (cases c) (auto split: sum.splits simp: nth_Cons split: nat.splits)
qed

lemma length_mask_and: "length (mask_and a b) = min (length a) (length b)"
  by (simp add: mask_and_def)

lemma nth_mask_and:
  "i < length a \<Longrightarrow> i < length b \<Longrightarrow> mask_and a b ! i = (a ! i \<and> b ! i)"
  by (simp add: mask_and_def)

lemma in_window_cells:
  "in_window s e (Time t, Time x, c) =
     (dt_lt t e \<and> \<not> cell_isna (Time t) \<and> \<not> cell_isna (Time x) \<and> dt_ge x s)"
  by (cases t; cases x) simp_all

lemma and_then_Inr:
  "and_then r f = Inr y \<longleftrightarrow> (\<exists>v. r = Inr v \<and> f v = Inr y)"
  by (auto simp: and_then_def split: sum.splits)

lemma overlap_mask_rows:
  assumes mask: "overlap_mask p in_f out_f s e = Inr m"
    and len: "length (column p in_f) = n" "length (column p out_f) = n" "length cs = n"
  shows "m = map (in_window s e) (zip (column p in_f) (zip (column p out_f) cs))"
proof -
  let ?E = "column p in_f" and ?X = "column p out_f"
  from mask obtain s1 s3 m1 m4 where
    g1: "getitem p in_f = Inr s1" and g3: "getitem p out_f = Inr s3"
    and lt: "series_lt s1 e = Inr m1" and ge: "series_ge s3 s = Inr m4"
    and m: "m = mask_and (mask_and (mask_and m1 (mask_not (isna s1))) (mask_not (isna s3))) m4"
    unfolding overlap_mask_def by (auto simp: and_then_Inr)
  from g1 have E: "s_values s1 = ?E"
    by (auto simp: getitem_def column_def split: option.splits)
  from g3 have X: "s_values s3 = ?X"
    by (auto simp: getitem_def column_def split: option.splits)
  from lt E have l1: "length m1 = n" and c1: "\<forall>i<n. \<exists>t. ?E ! i = Time t \<and> m1 ! i = dt_lt t e"
    using traverse_lt [of e ?E m1] len by (auto simp: series_lt_def)
  from ge X have l4: "length m4 = n" and c4: "\<forall>i<n. \<exists>t. ?X ! i = Time t \<and> m4 ! i = dt_ge t s"
    using traverse_ge [of s ?X m4] len by (auto simp: series_ge_def)
  show ?thesis
  proof (rule nth_equalityI)
    show "length m = length (map (in_window s e) (zip ?E (zip ?X cs)))"
      using l1 l4 len E X by (simp add: m length_mask_and mask_not_def isna_def)
  next
    fix i assume "i < length m"
    then have i: "i < n"
      using l1 l4 len E X by (simp add: m length_mask_and mask_not_def isna_def)
    from c1 i obtain t where t: "?E ! i = Time t" "m1 ! i = dt_lt t e" by blast
    from c4 i obtain x where x: "?X ! i = Time x" "m4 ! i = dt_ge x s" by blast
    have "m ! i = (dt_lt t e \<and> \<not> cell_isna (Time t) \<and> \<not> cell_isna (Time x) \<and> dt_ge x s)"
      using i l1 l4 len E X t x
      by (simp add: m nth_mask_and length_mask_and mask_not_def isna_def)
    also have "\<dots> = in_window s e (Time t, Time x, cs ! i)" by (simp only: in_window_cells)
    also have "\<dots> = map (in_window s e) (zip ?E (zip ?X cs)) ! i"
      using i len t x by simp
    finally show "m ! i = map (in_window s e) (zip ?E (zip ?X cs)) ! i" .
  qed
qed

subsection \<open>The frame that is filtered\<close>

lemma getitem_Inr:
  "getitem df c = Inr s \<longleftrightarrow>
     map_of (df_data df) c = Some (s_values s) \<and> s_index s = df_index df"
  by (cases s) (auto simp: getitem_def split: option.splits)

lemma getitem_column: "getitem df c = Inr s \<Longrightarrow> column df c = s_values s"
  by (simp add: getitem_Inr column_def)

lemma map_of_DataFrame_of_dict:
  "map_of (df_data (DataFrame_of_dict d)) k = map_option s_values (map_of d k)"
  by (induction d) (auto simp: DataFrame_of_dict_def)

lemma columns_setitem: "set (df_columns (setitem df c s)) = insert c (set (df_columns df))"
  by (simp add: df_columns_def setitem_def dom_update)

lemma prepared_frame:
  assumes g_in: "getitem df i = Inr in_s" and g_out: "getitem df o' = Inr out_s"
    and p: "case cat of
         None \<Rightarrow> p = DataFrame_of_dict (AList.update o' out_s (AList.update i in_s []))
       | Some c \<Rightarrow>
           (\<exists>cat_s. getitem df c = Inr cat_s \<and>
              p = setitem (DataFrame_of_dict (AList.update o' out_s (AList.update i in_s [])))
                    c cat_s)"
  shows "df_index p = df_index df"
    and "column p i = column df i"
    and "column p o' = column df o'"
    and "cat = Some c \<Longrightarrow> column p c = column df c"
    and "set (df_columns p) = {i, o'} \<union> set_option cat"
proof -
  let ?P0 = "DataFrame_of_dict (AList.update o' out_s (AList.update i in_s []))"
  have idx0: "df_index ?P0 = df_index df"
    using g_in g_out by (auto simp: DataFrame_of_dict_def getitem_Inr)
  have cols0: "map_of (df_data ?P0) k =
      (if k = o' then Some (column df o') else if k = i then Some (column df i) else None)" for k
    using g_in g_out
    by (simp add: map_of_DataFrame_of_dict update_conv' getitem_column)
  have keys0: "set (df_columns ?P0) = {i, o'}"
    by (auto simp: df_columns_def DataFrame_of_dict_def)
  show "df_index p = df_index df"
    using p idx0 by (auto simp: setitem_def split: option.splits)
  have cols: "map_of (df_data p) k =
      (if cat = Some k then Some (column df k)
       else if k = o' then Some (column df o') else if k = i then Some (column df i) else None)" for k
    using p cols0
    by (auto simp: setitem_def update_conv' getitem_column split: option.splits)
  show "column p i = column df i"
    using cols [of i] by (auto simp: column_def)
  show "column p o' = column df o'"
    using cols [of o'] by (auto simp: column_def)
  show "cat = Some c \<Longrightarrow> column p c = column df c"
    using cols [of c] by (auto simp: column_def)
  show "set (df_columns p) = {i, o'} \<union> set_option cat"
  proof (cases cat)
    case None
    with p keys0 show ?thesis by simp
  next
    case (Some c')
    with p obtain cat_s where "p = setitem ?P0 c' cat_s" by auto
    with keys0 Some show ?thesis by (simp only: columns_setitem) auto
  qed
qed

lemma column_loc: "column (reset_index_drop (loc p m)) k = select m (column p k)"
proof -
  have "map_of (df_data (loc p m)) k = map_option (select m) (map_of (df_data p) k)"
    by (induction "df_data p" arbitrary: p) (auto simp: loc_def map_of_map)
  then show ?thesis
    by (auto simp: column_def reset_index_drop_def select_def split: option.splits)
qed

lemma columns_loc: "df_columns (reset_index_drop (loc p m)) = df_columns p"
  by (simp add: df_columns_def reset_index_drop_def loc_def comp_def case_prod_beta)

lemma index_loc:
  "df_index (reset_index_drop (loc p m)) = map int [0..<length (select m (df_index p))]"
  by (simp add: reset_index_drop_def loc_def)

lemma wf_column_length:
  "wf_frame df \<Longrightarrow> map_of (df_data df) c = Some vs \<Longrightarrow> length vs = length (df_index df)"
  by (auto simp: wf_frame_def list_all_iff dest!: map_of_SomeD)

lemma preprocess_rows:
  assumes run: "preprocess_stops_df st self = (Inr self', st')"
    and ref: "stops_df self < length (frames st)"
    and wf: "wf_frame (frames st ! stops_df self)"
  shows "\<exists>r. stops_preprocessed_df self' = Some r \<and> r < length (frames st') \<and>
     visit_records (frames st' ! r) (in_field self) (out_field self) (cat_field self) =
       filter (in_window (start_analysis_dt self) (end_analysis_dt self))
         (visit_records (frames st ! stops_df self)
            (in_field self) (out_field self) (cat_field self)) \<and>
     set (df_columns (frames st' ! r)) =
       {in_field self, out_field self} \<union> set_option (cat_field self)"
proof -
  let ?df = "frames st ! stops_df self"
  let ?i = "in_field self" and ?o = "out_field self" and ?cat = "cat_field self"
  let ?n = "length (df_index ?df)"
  from preprocess_success [OF run ref] obtain in_s out_s p m where
    g_in: "getitem ?df ?i = Inr in_s" and g_out: "getitem ?df ?o = Inr out_s"
    and p: "case ?cat of
         None \<Rightarrow> p = DataFrame_of_dict (AList.update ?o out_s (AList.update ?i in_s []))
       | Some c \<Rightarrow>
           (\<exists>cat_s. getitem ?df c = Inr cat_s \<and>
              p = setitem (DataFrame_of_dict (AList.update ?o out_s (AList.update ?i in_s [])))
                    c cat_s)"
    and mask: "overlap_mask p ?i ?o (start_analysis_dt self) (end_analysis_dt self) = Inr m"
    and self': "self' = self\<lparr>stops_preprocessed_df := Some (length (frames st) + 2)\<rparr>"
    and heap: "frames st' = frames st @ [p, loc p m, reset_index_drop (loc p m)]"
    by blast
  let ?F = "reset_index_drop (loc p m)"
  let ?r = "length (frames st) + 2"
  note pf = prepared_frame [OF g_in g_out p]
  have F: "frames st' ! ?r = ?F" by (simp add: heap nth_append)
  have r: "?r < length (frames st')" by (simp add: heap)
  define cs where "cs = (case ?cat of None \<Rightarrow> replicate ?n None
                         | Some c \<Rightarrow> map Some (column ?df c))"
  have len_i: "length (column ?df ?i) = ?n"
    using g_in wf by (auto simp: getitem_Inr column_def dest: wf_column_length)
  have len_o: "length (column ?df ?o) = ?n"
    using g_out wf by (auto simp: getitem_Inr column_def dest: wf_column_length)
  have len_c: "length cs = ?n"
  proof (cases ?cat)
    case None
    then show ?thesis by (simp add: cs_def)
  next
    case (Some c)
    with p obtain cat_s where "getitem ?df c = Inr cat_s" by auto
    with wf Some show ?thesis
      by (auto simp: cs_def getitem_Inr column_def dest: wf_column_length)
  qed
  have recs: "visit_records ?df ?i ?o ?cat = zip (column ?df ?i) (zip (column ?df ?o) cs)"
    by (simp add: visit_records_def cs_def)
  have m: "m = map (in_window (start_analysis_dt self) (end_analysis_dt self))
                 (visit_records ?df ?i ?o ?cat)"
    unfolding recs
    using overlap_mask_rows [OF mask, of ?n cs] len_i len_o len_c pf(2,3) by simp
  then have len_m: "length m = ?n"
    by (simp add: recs len_i len_o len_c)
  have cs': "(case ?cat of None \<Rightarrow> replicate (length (df_index ?F)) None
              | Some c \<Rightarrow> map Some (column ?F c)) = select m cs"
  proof (cases ?cat)
    case None
    have "length (select m (df_index p)) = length (filter id m)"
      using len_m pf(1) by (simp add: length_select)
    moreover have "select m (replicate ?n (None :: cell option)) =
        replicate (length (filter id m)) None"
      using select_replicate [of m "None :: cell option"] len_m by simp
    ultimately show ?thesis
      using None by (simp add: cs_def index_loc)
  next
    case (Some c)
    with pf(4) show ?thesis
      by (simp add: cs_def column_loc select_map_values)
  qed
  have "visit_records ?F ?i ?o ?cat =
          zip (select m (column ?df ?i)) (zip (select m (column ?df ?o)) (select m cs))"
    unfolding visit_records_def cs' by (simp add: column_loc pf(2,3))
  also have "\<dots> = select m (zip (column ?df ?i) (zip (column ?df ?o) cs))"
    using len_m len_i len_o len_c by (simp add: select_zip)
  also have "\<dots> = filter (in_window (start_analysis_dt self) (end_analysis_dt self))
                      (visit_records ?df ?i ?o ?cat)"
    unfolding recs [symmetric] by (subst m) (rule select_map)
  finally have rows: "visit_records ?F ?i ?o ?cat =
      filter (in_window (start_analysis_dt self) (end_analysis_dt self))
        (visit_records ?df ?i ?o ?cat)" .
  have cols: "set (df_columns ?F) = {?i, ?o} \<union> set_option ?cat"
    by (simp only: columns_loc pf(5))
  from rows cols r F show ?thesis
    by (intro exI [of _ ?r]) (simp add: self')
qed

subsection \<open>Construction and the heap\<close>

lemma Scenario_init_rows:
  assumes run: "Scenario_init T st kw = (Inr self, st')"
    and ref: "kw_stops_df kw < length (frames st)"
    and wf: "wf_frame (deref st (kw_stops_df kw))"
  shows "\<exists>r. stops_preprocessed_df self = Some r \<and> r < length (frames st') \<and>
      visit_records (deref st' r) (kw_in_field kw) (kw_out_field kw) (kw_cat_field kw) =
        filter (in_window (start_analysis_dt self) (end_analysis_dt self))
          (visit_records (deref st (kw_stops_df kw))
             (kw_in_field kw) (kw_out_field kw) (kw_cat_field kw)) \<and>
      set (df_columns (deref st' r)) =
        {kw_in_field kw, kw_out_field kw} \<union> set_option (kw_cat_field kw)"
proof -
  from Scenario_init_Inr [OF run] obtain s0 r0
    where valid: "validate_fields T (deref st (kw_stops_df kw)) kw = Inr (Inr s0)"
      and pre: "preprocess_stops_df st s0 = (Inr self, st')"
      and self: "self = s0\<lparr>stops_preprocessed_df := Some r0\<rparr>"
    by blast
  have fields: "stops_df s0 = kw_stops_df kw" "in_field s0 = kw_in_field kw"
    "out_field s0 = kw_out_field kw" "cat_field s0 = kw_cat_field kw"
    using validate_fields_Inr(3) [OF valid] valid_in_field [OF valid] valid_out_field [OF valid]
      valid_cat_field [OF valid] by simp_all
  have dates: "start_analysis_dt self = start_analysis_dt s0"
    "end_analysis_dt self = end_analysis_dt s0"
    by (simp_all add: self)
  from preprocess_rows [of st s0 self st'] pre ref wf
  show ?thesis by (simp add: fields dates deref_def)
qed

lemma Scenario_init_frames:
  "\<exists>new. frames (snd (Scenario_init T st kw :: (exn + 'h Scenario) \<times> heap)) = frames st @ new"
proof (cases "validate_fields T (deref st (kw_stops_df kw)) kw :: exn + (line_error list + 'h Scenario)")
  case (Inl x)
  then show ?thesis by (simp add: Scenario_init_def)
next
  case (Inr v)
  show ?thesis
  proof (cases v)
    case (Inl errors)
    with Inr show ?thesis by (simp add: Scenario_init_def)
  next
    case (Inr s0)
    with \<open>validate_fields T (deref st (kw_stops_df kw)) kw = Inr v\<close>
    have valid: "validate_fields T (deref st (kw_stops_df kw)) kw = Inr (Inr s0)" by simp
    show ?thesis
      using preprocess_frames [of st s0]
      by (simp add: Scenario_init_valid [OF valid])
  qed
qed

text \<open>The example runs to the Scenario and the heap given above.\<close>

lemma sample_run:
  "Scenario_init sample_Timestamp sample_heap sample_kwargs =
     (Inr sample_scenario, sample_heap_after)"
  by code_simp

lemma sample_wf: "wf_frame (deref sample_heap (kw_stops_df sample_kwargs))"
  by code_simp

lemma sample_ref: "kw_stops_df sample_kwargs < length (frames sample_heap)"
  by code_simp

section \<open>The claims\<close>

subsection \<open>C1: the summary for the requested metric\<close>

lemma get_summary_df_ignores_flow_metric:
  "get_summary_df lookup self flow_metric by_category stationary =
     get_summary_df lookup self ''occupancy'' by_category stationary"
  by (simp add: get_summary_df_def)

lemma get_plot_passes_flow_metric:
  "get_plot lookup self flow_metric day_of_week = lookup (hills self) flow_metric day_of_week"
  by (simp add: get_plot_def)

text \<open>
  C1 says that \<open>Scenario.get_summary_df\<close> returns the summary of the requested flow
  metric, so that asking for arrivals gives the arrivals summary and not the occupancy
  summary. The method passes the fixed name \<open>'o'\<close> on, whatever it was asked: on a
  Scenario whose three summaries differ, asking for \<open>'arrivals'\<close> returns the occupancy
  table \<open>[3]\<close>, while the arrivals table is \<open>[1]\<close>.
\<close>

theorem get_summary_df_arrivals_gives_occupancy:
  "get_summary_df hills_get_summary_df (sample_scenario\<lparr>hills := Some sample_tables\<rparr>)
      ''arrivals'' True False = [3] \<and>
   hills_get_summary_df (Some sample_tables) ''arrivals'' True False = [1] \<and>
   hills_get_summary_df (Some sample_tables) ''occupancy'' True False = [3]"
  by code_simp

subsection \<open>C4: the bin size divides a day\<close>

text \<open>
  C4: for a positive \<open>bin_size_minutes\<close>, construction raises the error with the message
  \<open>bin_size_minutes must divide into 1440 with no remainder\<close> if and only if the bin
  size does not divide 1440, and it does so before any computation: the error is part of
  the \<open>ValidationError\<close> of the fields, raised on the heap as it was, with no frame
  allocated and nothing logged.
\<close>

theorem bin_size_minutes_must_divide_1440:
  assumes given: "kw_bin_size_minutes kw = Some v" and pos: "0 < v"
  shows "(\<exists>errors. (Scenario_init T st kw :: (exn + 'h Scenario) \<times> heap) =
              (Inl (ValidationError errors), st) \<and>
            ValueErrorAt ''bin_size_minutes''
              (Message ''bin_size_minutes must divide into 1440 with no remainder'') \<in> set errors)
         \<longleftrightarrow> \<not> v dvd 1440"
proof -
  let ?df = "deref st (kw_stops_df kw)"
  let ?run = "Scenario_init T st kw :: (exn + 'h Scenario) \<times> heap"
  let ?E = "ValueErrorAt ''bin_size_minutes''
              (Message ''bin_size_minutes must divide into 1440 with no remainder'')"
  have nz: "kw_bin_size_minutes kw \<noteq> Some 0" using given pos by simp
  have rem: "0 < 1440 mod v \<longleftrightarrow> \<not> v dvd 1440"
    using pos by (simp add: dvd_eq_mod_eq_0 order_less_le)
  have mem: "?E \<in> reported (field_values T ?df kw) \<longleftrightarrow> \<not> v dvd 1440"
    unfolding reported_field_values [OF nz] fields
    using given pos rem
    by (auto simp: reported_def out_of_range_entries split: option.splits sum.splits if_splits)
  show ?thesis
  proof
    assume "\<exists>errors. ?run = (Inl (ValidationError errors), st) \<and> ?E \<in> set errors"
    then obtain errors where run: "?run = (Inl (ValidationError errors), st)"
      and E: "?E \<in> set errors" by blast
    show "\<not> v dvd 1440"
    proof (cases "field_values T ?df kw")
      case (Inl x)
      then have "raised (field_values T ?df kw)" by (simp add: raised_def)
      with nz show ?thesis by (simp add: raised_field_values)
    next
      case (Inr r)
      show ?thesis
      proof (cases r)
        case (Inl errs)
        with Inr run have "errs = errors" by (simp add: Scenario_init_invalid)
        with Inl Inr E have "?E \<in> reported (field_values T ?df kw)" by (simp add: reported_def)
        with mem show ?thesis by simp
      next
        case (Inr vals)
        with \<open>field_values T ?df kw = Inr r\<close> obtain self :: "'h Scenario"
          where "validate_fields T ?df kw = Inr (Inr self)"
          using field_values_valid by blast
        then have after: "?run =
            (if dt_le (end_analysis_dt self) (start_analysis_dt self)
             then (Inl (ValidationError
                     [ValueErrorAt [] (Message ''end date must be > start date'')]), st)
             else preprocess_stops_df st self)"
          by (simp add: Scenario_init_after preprocess_outcome)
        show ?thesis
        proof (cases "dt_le (end_analysis_dt self) (start_analysis_dt self)")
          case True
          with after run E show ?thesis by simp
        next
          case False
          with after run have "preprocess_stops_df st self = (Inl (ValidationError errors), st)"
            by simp
          then have "fst (preprocess_stops_df st self) = Inl (ValidationError errors)"
            by (simp only: fst_conv)
          then show ?thesis by (simp add: preprocess_no_ValidationError)
        qed
      qed
    qed
  next
    assume "\<not> v dvd 1440"
    with mem have E: "?E \<in> reported (field_values T ?df kw)" by simp
    then obtain errors where "field_values T ?df kw = Inr (Inl errors)" and "?E \<in> set errors"
      by (auto simp: reported_def split: sum.splits)
    then show "\<exists>errors. ?run = (Inl (ValidationError errors), st) \<and> ?E \<in> set errors"
      by (auto simp: Scenario_init_invalid)
  qed
qed

theorem bin_size_minutes_must_divide_1440_witness:
  "kw_bin_size_minutes (sample_kwargs\<lparr>kw_bin_size_minutes := Some 7\<rparr>) = Some 7 \<and>
   (0 :: int) < 7 \<and> \<not> (7 :: int) dvd 1440 \<and>
   (\<exists>errors. (Scenario_init sample_Timestamp sample_heap
                 (sample_kwargs\<lparr>kw_bin_size_minutes := Some 7\<rparr>)
               :: (exn + nat summaries Scenario) \<times> heap) =
              (Inl (ValidationError errors), sample_heap) \<and>
            ValueErrorAt ''bin_size_minutes''
              (Message ''bin_size_minutes must divide into 1440 with no remainder'') \<in> set errors)"
  using bin_size_minutes_must_divide_1440
    [of "sample_kwargs\<lparr>kw_bin_size_minutes := Some 7\<rparr>" 7 sample_Timestamp sample_heap]
  by simp

subsection \<open>C5: the analysis ends after it starts\<close>



subsection \<open>C9: the analysis dates are held as datetime64 values\<close>

text \<open>
  C9: in a constructed Scenario \<open>start_analysis_dt\<close> and \<open>end_analysis_dt\<close> are the
  numpy \<open>datetime64\<close> values of the Timestamps pandas makes of the arguments, whichever
  of the four kinds of value the caller passed; and when pandas cannot convert one of
  them, construction fails with the error \<open>Cannot convert ... to to a numpy datetime64
  object\<close> for that field. (A \<open>bin_size_minutes\<close> of 0 is left aside: its
  \<open>ZeroDivisionError\<close> ends the call before the errors are reported.)
\<close>

theorem analysis_dates_held_as_datetime64:
  "((Scenario_init T st kw :: (exn + 'h Scenario) \<times> heap) = (Inr self, st') \<longrightarrow>
      (\<exists>ts te. T (kw_start_analysis_dt kw) = Inr ts \<and> T (kw_end_analysis_dt kw) = Inr te \<and>
         start_analysis_dt self = to_datetime64 ts \<and> end_analysis_dt self = to_datetime64 te)) \<and>
   (T (kw_start_analysis_dt kw) = Inl msg \<and> kw_bin_size_minutes kw \<noteq> Some 0 \<longrightarrow>
      (\<exists>errors. (Scenario_init T st kw :: (exn + 'h Scenario) \<times> heap) =
                  (Inl (ValidationError errors), st) \<and>
         ValueErrorAt ''start_analysis_dt'' (CannotConvert (kw_start_analysis_dt kw) msg)
           \<in> set errors)) \<and>
   (T (kw_end_analysis_dt kw) = Inl msg \<and> kw_bin_size_minutes kw \<noteq> Some 0 \<longrightarrow>
      (\<exists>errors. (Scenario_init T st kw :: (exn + 'h Scenario) \<times> heap) =
                  (Inl (ValidationError errors), st) \<and>
         ValueErrorAt ''end_analysis_dt'' (CannotConvert (kw_end_analysis_dt kw) msg)
           \<in> set errors))"
proof (intro conjI impI)
  assume run: "(Scenario_init T st kw :: (exn + 'h Scenario) \<times> heap) = (Inr self, st')"
  from Scenario_init_Inr [OF run] obtain s0 r
    where valid: "validate_fields T (deref st (kw_stops_df kw)) kw = Inr (Inr s0)"
      and self: "self = s0\<lparr>stops_preprocessed_df := Some r\<rparr>"
    by blast
  from valid_dates [OF valid] show "\<exists>ts te. T (kw_start_analysis_dt kw) = Inr ts \<and>
      T (kw_end_analysis_dt kw) = Inr te \<and>
      start_analysis_dt self = to_datetime64 ts \<and> end_analysis_dt self = to_datetime64 te"
    by (simp add: self)
next
  let ?df = "deref st (kw_stops_df kw)"
  let ?E = "ValueErrorAt ''start_analysis_dt'' (CannotConvert (kw_start_analysis_dt kw) msg)"
  assume "T (kw_start_analysis_dt kw) = Inl msg \<and> kw_bin_size_minutes kw \<noteq> Some 0"
  then have bad: "T (kw_start_analysis_dt kw) = Inl msg" and nz: "kw_bin_size_minutes kw \<noteq> Some 0"
    by simp_all
  have "?E \<in> reported (field_values T ?df kw)"
    unfolding reported_field_values [OF nz] validated_date
    using bad by (simp add: reported_def)
  then obtain errors where "field_values T ?df kw = Inr (Inl errors)" and "?E \<in> set errors"
    by (auto simp: reported_def split: sum.splits)
  then show "\<exists>errors. (Scenario_init T st kw :: (exn + 'h Scenario) \<times> heap) =
                  (Inl (ValidationError errors), st) \<and> ?E \<in> set errors"
    by (auto simp: Scenario_init_invalid)
next
  let ?df = "deref st (kw_stops_df kw)"
  let ?E = "ValueErrorAt ''end_analysis_dt'' (CannotConvert (kw_end_analysis_dt kw) msg)"
  assume "T (kw_end_analysis_dt kw) = Inl msg \<and> kw_bin_size_minutes kw \<noteq> Some 0"
  then have bad: "T (kw_end_analysis_dt kw) = Inl msg" and nz: "kw_bin_size_minutes kw \<noteq> Some 0"
    by simp_all
  have "?E \<in> reported (field_values T ?df kw)"
    unfolding reported_field_values [OF nz] validated_date
    using bad by (simp add: reported_def)
  then obtain errors where "field_values T ?df kw = Inr (Inl errors)" and "?E \<in> set errors"
    by (auto simp: reported_def split: sum.splits)
  then show "\<exists>errors. (Scenario_init T st kw :: (exn + 'h Scenario) \<times> heap) =
                  (Inl (ValidationError errors), st) \<and> ?E \<in> set errors"
    by (auto simp: Scenario_init_invalid)
qed

theorem analysis_dates_held_as_datetime64_witness:
  "Scenario_init sample_Timestamp sample_heap sample_kwargs =
     (Inr sample_scenario, sample_heap_after) \<and>
   (\<exists>ts te. sample_Timestamp (kw_start_analysis_dt sample_kwargs) = Inr ts \<and>
      sample_Timestamp (kw_end_analysis_dt sample_kwargs) = Inr te \<and>
      start_analysis_dt sample_scenario = to_datetime64 ts \<and>
      end_analysis_dt sample_scenario = to_datetime64 te) \<and>
   sample_Timestamp (kw_start_analysis_dt (sample_kwargs\<lparr>kw_start_analysis_dt := PyDate 1000000\<rparr>)) =
     Inl ''Out of bounds nanosecond timestamp'' \<and>
   kw_bin_size_minutes (sample_kwargs\<lparr>kw_start_analysis_dt := PyDate 1000000\<rparr>) \<noteq> Some 0 \<and>
   (\<exists>errors. (Scenario_init sample_Timestamp sample_heap
                 (sample_kwargs\<lparr>kw_start_analysis_dt := PyDate 1000000\<rparr>)
               :: (exn + nat summaries Scenario) \<times> heap) =
               (Inl (ValidationError errors), sample_heap) \<and>
      ValueErrorAt ''start_analysis_dt''
        (CannotConvert (PyDate 1000000) ''Out of bounds nanosecond timestamp'') \<in> set errors)"
proof -
  have bad: "sample_Timestamp (kw_start_analysis_dt (sample_kwargs\<lparr>kw_start_analysis_dt := PyDate 1000000\<rparr>)) =
     Inl ''Out of bounds nanosecond timestamp''"
    by (simp add: in_bounds_def)
  have nz: "kw_bin_size_minutes (sample_kwargs\<lparr>kw_start_analysis_dt := PyDate 1000000\<rparr>) \<noteq> Some 0"
    by (simp add: sample_kwargs_def)
  from analysis_dates_held_as_datetime64
         [of sample_Timestamp sample_heap sample_kwargs sample_scenario sample_heap_after]
       analysis_dates_held_as_datetime64
         [where ?'h = "nat summaries",
          of sample_Timestamp sample_heap "sample_kwargs\<lparr>kw_start_analysis_dt := PyDate 1000000\<rparr>"
             _ _ "''Out of bounds nanosecond timestamp''"]
       sample_run bad nz
  show ?thesis by simp
qed

subsection \<open>C10: the defaults\<close>

text \<open>
  C10: a Scenario constructed without the optional parameters has
  \<open>bin_size_minutes = 60\<close>, \<open>edge_bins = FRACTIONAL\<close>,
  \<open>percentiles = (0.25, 0.5, 0.75, 0.95, 0.99)\<close>, \<open>cat_field = None\<close>,
  \<open>occ_weight_field = None\<close> (which the class documents as a weight of 1.0), and both
  \<open>nonstationary_stats\<close> and \<open>stationary_stats\<close> enabled.
\<close>

theorem scenario_defaults:
  assumes run: "Scenario_init T st kw = (Inr self, st')"
  shows "(kw_bin_size_minutes kw = None \<longrightarrow> bin_size_minutes self = 60) \<and>
         (kw_edge_bins kw = None \<longrightarrow> edge_bins self = FRACTIONAL) \<and>
         (kw_percentiles kw = None \<longrightarrow>
            percentiles self =
              PyTuple [Finite 0.25, Finite 0.5, Finite 0.75, Finite 0.95, Finite 0.99]) \<and>
         (kw_cat_field kw = None \<longrightarrow> cat_field self = None) \<and>
         (kw_occ_weight_field kw = None \<longrightarrow> occ_weight_field self = None) \<and>
         (kw_nonstationary_stats kw = None \<longrightarrow> nonstationary_stats self) \<and>
         (kw_stationary_stats kw = None \<longrightarrow> stationary_stats self)"
proof -
  from Scenario_init_Inr [OF run] obtain s0 r
    where valid: "validate_fields T (deref st (kw_stops_df kw)) kw = Inr (Inr s0)"
      and self: "self = s0\<lparr>stops_preprocessed_df := Some r\<rparr>"
    by blast
  show ?thesis
    using valid_bin_size [OF valid] valid_percentiles [OF valid] valid_cat_field [OF valid]
      valid_occ_weight_field [OF valid] validate_fields_Inr(5,6,7) [OF valid]
    by (auto simp: self or_default_def default_percentiles_def)
qed

theorem scenario_defaults_witness:
  "Scenario_init sample_Timestamp sample_heap sample_kwargs =
     (Inr sample_scenario, sample_heap_after) \<and>
   kw_bin_size_minutes sample_kwargs = None \<and> bin_size_minutes sample_scenario = 60 \<and>
   kw_edge_bins sample_kwargs = None \<and> edge_bins sample_scenario = FRACTIONAL \<and>
   kw_percentiles sample_kwargs = None \<and>
   percentiles sample_scenario =
     PyTuple [Finite 0.25, Finite 0.5, Finite 0.75, Finite 0.95, Finite 0.99] \<and>
   kw_cat_field sample_kwargs = None \<and> cat_field sample_scenario = None \<and>
   kw_occ_weight_field sample_kwargs = None \<and> occ_weight_field sample_scenario = None \<and>
   kw_nonstationary_stats sample_kwargs = None \<and> nonstationary_stats sample_scenario \<and>
   kw_stationary_stats sample_kwargs = None \<and> stationary_stats sample_scenario"
  using scenario_defaults [OF sample_run] sample_run
  by (simp add: sample_kwargs_def)

subsection \<open>C6: the percentiles lie between 0 and 1\<close>

text \<open>
  C6: construction raises a configuration error when a requested percentile lies outside
  the closed interval from 0 to 1 and accepts the list otherwise, before any computation.
  For a given list, the \<open>ValidationError\<close> of the fields, raised on the heap as it was,
  reports a percentile exactly when one lies outside the interval (an infinity and NaN
  do); and a construction that succeeds holds the percentiles that were given.
  (A \<open>bin_size_minutes\<close> of 0 is left aside: its \<open>ZeroDivisionError\<close> ends the call
  before the percentiles are looked at.)
\<close>

theorem percentiles_must_lie_in_unit_interval:
  assumes given: "kw_percentiles kw = Some ps" and nz: "kw_bin_size_minutes kw \<noteq> Some 0"
  shows "((\<exists>errors i p. (Scenario_init T st kw :: (exn + 'h Scenario) \<times> heap) =
                         (Inl (ValidationError errors), st) \<and>
                       PercentileOutOfRange i p \<in> set errors)
            \<longleftrightarrow> (\<exists>p\<in>set (items ps). \<not> in_unit_interval p)) \<and>
         (\<forall>self st'. (Scenario_init T st kw :: (exn + 'h Scenario) \<times> heap) = (Inr self, st') \<longrightarrow>
            items (percentiles self) = items ps)"
proof (intro conjI allI impI)
  let ?df = "deref st (kw_stops_df kw)"
  let ?run = "Scenario_init T st kw :: (exn + 'h Scenario) \<times> heap"
  have mem: "PercentileOutOfRange i p \<in> reported (field_values T ?df kw) \<longleftrightarrow>
       PercentileOutOfRange i p \<in> set (out_of_range (items ps))" for i p
    unfolding reported_field_values [OF nz] fields
    using given by (auto simp: reported_def split: option.splits sum.splits if_splits)
  show "(\<exists>errors i p. ?run = (Inl (ValidationError errors), st) \<and>
            PercentileOutOfRange i p \<in> set errors)
          \<longleftrightarrow> (\<exists>p\<in>set (items ps). \<not> in_unit_interval p)"
  proof
    assume "\<exists>errors i p. ?run = (Inl (ValidationError errors), st) \<and>
              PercentileOutOfRange i p \<in> set errors"
    then obtain errors i p where run: "?run = (Inl (ValidationError errors), st)"
      and E: "PercentileOutOfRange i p \<in> set errors" by blast
    have "PercentileOutOfRange i p \<in> reported (field_values T ?df kw)"
    proof (cases "field_values T ?df kw")
      case (Inl x)
      then have "raised (field_values T ?df kw)" by (simp add: raised_def)
      with nz show ?thesis by (simp add: raised_field_values)
    next
      case (Inr r)
      show ?thesis
      proof (cases r)
        case (Inl errs)
        with Inr run have "errs = errors" by (simp add: Scenario_init_invalid)
        with Inl Inr E show ?thesis by (simp add: reported_def)
      next
        case (Inr vals)
        with \<open>field_values T ?df kw = Inr r\<close> obtain self :: "'h Scenario"
          where valid: "validate_fields T ?df kw = Inr (Inr self)"
          using field_values_valid by blast
        show ?thesis
        proof (cases "dt_le (end_analysis_dt self) (start_analysis_dt self)")
          case True
          with run E show ?thesis by (auto simp: Scenario_init_valid [OF valid])
        next
          case False
          with run have "preprocess_stops_df st self = (Inl (ValidationError errors), st)"
            by (simp add: Scenario_init_valid [OF valid])
          then have "fst (preprocess_stops_df st self) = Inl (ValidationError errors)"
            by (simp only: fst_conv)
          then show ?thesis by (simp add: preprocess_no_ValidationError)
        qed
      qed
    qed
    then have "PercentileOutOfRange i p \<in> set (out_of_range (items ps))" by (simp add: mem)
    then show "\<exists>p\<in>set (items ps). \<not> in_unit_interval p"
      by (auto simp: out_of_range_iff)
  next
    assume "\<exists>p\<in>set (items ps). \<not> in_unit_interval p"
    then obtain i where "i < length (items ps)" and "\<not> in_unit_interval (items ps ! i)"
      by (auto simp: in_set_conv_nth)
    then have "PercentileOutOfRange i (items ps ! i) \<in> set (out_of_range (items ps))"
      by (simp add: out_of_range_iff)
    then have E: "PercentileOutOfRange i (items ps ! i) \<in> reported (field_values T ?df kw)"
      by (simp add: mem)
    then obtain errors where "field_values T ?df kw = Inr (Inl errors)"
      and "PercentileOutOfRange i (items ps ! i) \<in> set errors"
      by (auto simp: reported_def split: sum.splits)
    then show "\<exists>errors i p. ?run = (Inl (ValidationError errors), st) \<and>
            PercentileOutOfRange i p \<in> set errors"
      by (auto simp: Scenario_init_invalid)
  qed
next
  fix self :: "'h Scenario" and st'
  assume run: "Scenario_init T st kw = (Inr self, st')"
  from Scenario_init_Inr [OF run] obtain s0 r
    where valid: "validate_fields T (deref st (kw_stops_df kw)) kw = Inr (Inr s0)"
      and self: "self = s0\<lparr>stops_preprocessed_df := Some r\<rparr>"
    by blast
  from valid_percentiles [OF valid] given show "items (percentiles self) = items ps"
    by (simp add: self)
qed

theorem percentiles_must_lie_in_unit_interval_witness:
  "kw_percentiles (sample_kwargs\<lparr>kw_percentiles := Some (PyList [Finite 0.5, Finite 1.5])\<rparr>) =
     Some (PyList [Finite 0.5, Finite 1.5]) \<and>
   kw_bin_size_minutes (sample_kwargs\<lparr>kw_percentiles := Some (PyList [Finite 0.5, Finite 1.5])\<rparr>)
     \<noteq> Some 0 \<and>
   \<not> in_unit_interval (Finite 1.5) \<and>
   (\<exists>errors i p.
      (Scenario_init sample_Timestamp sample_heap
         (sample_kwargs\<lparr>kw_percentiles := Some (PyList [Finite 0.5, Finite 1.5])\<rparr>)
        :: (exn + nat summaries Scenario) \<times> heap) = (Inl (ValidationError errors), sample_heap) \<and>
      PercentileOutOfRange i p \<in> set errors)"
  using percentiles_must_lie_in_unit_interval
    [where ?'h = "nat summaries",
     of "sample_kwargs\<lparr>kw_percentiles := Some (PyList [Finite 0.5, Finite 1.5])\<rparr>"
        "PyList [Finite 0.5, Finite 1.5]" sample_Timestamp sample_heap]
  by (simp add: sample_kwargs_def)

subsection \<open>C8: the three sources of parameters\<close>

lemma create_scenario_toml_fails:
  "create_scenario Scenario params_dict (Some (Inl x)) kwargs = Inl x"
  by (simp add: create_scenario_def and_then_def)

text \<open>
  C8: the parameters \<open>create_scenario\<close> hands to \<open>Scenario\<close> are the union of the
  params dict, the dict loaded from the TOML file and the keyword arguments (each may be
  missing), and for a key that several of them define the keyword argument wins over the
  TOML value, which wins over the value of the params dict. This holds whatever the
  constructor then does with them.
\<close>

theorem create_scenario_merges_parameters:
  assumes "wf_dict params_dict" and "wf_dict toml_dict" and "wf_dict (Some kwargs)"
  shows "\<exists>params.
           (\<forall>Scenario :: 'v dict \<Rightarrow> exn + 's.
              create_scenario Scenario params_dict (map_option Inr toml_dict) kwargs =
                Scenario params) \<and>
           distinct (map fst params) \<and>
           set (map fst params) =
             dict_keys params_dict \<union> dict_keys toml_dict \<union> dict_keys (Some kwargs) \<and>
           (\<forall>k. map_of params k =
              (case map_of kwargs k of
                 Some v \<Rightarrow> Some v
               | None \<Rightarrow>
                   (case dict_get toml_dict k of
                      Some v \<Rightarrow> Some v
                    | None \<Rightarrow> dict_get params_dict k)))"
proof -
  define p1 :: "'v dict" where
    "p1 = (case params_dict of None \<Rightarrow> [] | Some d \<Rightarrow> dict_update [] d)"
  define p2 where "p2 = (case toml_dict of None \<Rightarrow> p1 | Some d \<Rightarrow> dict_update p1 d)"
  define p3 where "p3 = (if length kwargs > 0 then dict_update p2 kwargs else p2)"
  have run: "create_scenario Scenario params_dict (map_option Inr toml_dict) kwargs = Scenario p3"
    for Scenario :: "'v dict \<Rightarrow> exn + 's"
    by (simp add: create_scenario_def and_then_def p1_def p2_def p3_def Let_def
        split: option.splits)
  have d1: "distinct (map fst p1)"
    by (simp add: p1_def distinct_dict_update split: option.splits)
  then have d2: "distinct (map fst p2)"
    by (simp add: p2_def distinct_dict_update split: option.splits)
  then have d3: "distinct (map fst p3)"
    by (simp add: p3_def distinct_dict_update)
  have k1: "fst ` set p1 = dict_keys params_dict"
    by (simp add: p1_def dict_keys_def keys_dict_update split: option.splits)
  have k2: "fst ` set p2 = dict_keys params_dict \<union> dict_keys toml_dict"
    by (simp add: p2_def dict_keys_def keys_dict_update k1 split: option.splits)
  have k3: "fst ` set p3 = dict_keys params_dict \<union> dict_keys toml_dict \<union> dict_keys (Some kwargs)"
    by (simp add: p3_def dict_keys_def keys_dict_update k2)
  have m1: "map_of p1 = (\<lambda>k. dict_get params_dict k)"
    using assms(1)
    by (auto simp: p1_def dict_get_def wf_dict_def map_of_dict_update split: option.splits)
  have m2: "map_of p2 = map_of p1 ++ (\<lambda>k. dict_get toml_dict k)"
    using assms(2)
    by (auto simp: p2_def dict_get_def wf_dict_def map_of_dict_update map_add_def fun_eq_iff
        split: option.splits)
  have m3: "map_of p3 = map_of p2 ++ map_of kwargs"
    using assms(3)
    by (cases kwargs) (auto simp: p3_def wf_dict_def map_of_dict_update)
  have look: "map_of p3 k =
      (case map_of kwargs k of
         Some v \<Rightarrow> Some v
       | None \<Rightarrow> (case dict_get toml_dict k of Some v \<Rightarrow> Some v | None \<Rightarrow> dict_get params_dict k))"
    for k
    by (simp add: m3 m2 m1 map_add_def split: option.splits)
  from run d3 k3 look show ?thesis by (intro exI [of _ p3]) auto
qed

theorem create_scenario_merges_parameters_witness:
  "wf_dict (Some [(''bin_size_minutes'', 30 :: int), (''cap'', 5)]) \<and>
   wf_dict (Some [(''bin_size_minutes'', 60 :: int), (''verbosity'', 1)]) \<and>
   wf_dict (Some [(''bin_size_minutes'', 15 :: int)]) \<and>
   (\<exists>params.
      (\<forall>Scenario :: int dict \<Rightarrow> exn + int dict.
         create_scenario Scenario (Some [(''bin_size_minutes'', 30), (''cap'', 5)])
           (map_option Inr (Some [(''bin_size_minutes'', 60), (''verbosity'', 1)]))
           [(''bin_size_minutes'', 15)] = Scenario params) \<and>
      map_of params ''bin_size_minutes'' = Some 15 \<and>
      map_of params ''verbosity'' = Some 1 \<and>
      map_of params ''cap'' = Some 5 \<and>
      map_of params ''cat_field'' = None)"
proof -
  have wf: "wf_dict (Some [(''bin_size_minutes'', 30 :: int), (''cap'', 5)])"
    "wf_dict (Some [(''bin_size_minutes'', 60 :: int), (''verbosity'', 1)])"
    "wf_dict (Some [(''bin_size_minutes'', 15 :: int)])"
    by (simp_all add: wf_dict_def)
  from create_scenario_merges_parameters [OF wf, where ?'s = "int dict"]
  obtain params where
    run: "\<forall>Scenario :: int dict \<Rightarrow> exn + int dict.
         create_scenario Scenario (Some [(''bin_size_minutes'', 30), (''cap'', 5)])
           (map_option Inr (Some [(''bin_size_minutes'', 60), (''verbosity'', 1)]))
           [(''bin_size_minutes'', 15)] = Scenario params"
    and look: "\<forall>k. map_of params k =
              (case map_of [(''bin_size_minutes'', 15 :: int)] k of
                 Some v \<Rightarrow> Some v
               | None \<Rightarrow>
                   (case dict_get (Some [(''bin_size_minutes'', 60), (''verbosity'', 1)]) k of
                      Some v \<Rightarrow> Some v
                    | None \<Rightarrow> dict_get (Some [(''bin_size_minutes'', 30), (''cap'', 5)]) k))"
    by blast
  from look have "map_of params ''bin_size_minutes'' = Some 15"
    "map_of params ''verbosity'' = Some 1" "map_of params ''cap'' = Some 5"
    "map_of params ''cat_field'' = None"
    by (simp_all add: dict_get_def)
  with wf run show ?thesis by blast
qed

subsection \<open>C2: the preprocessed records\<close>

text \<open>
  C2: after construction \<open>stops_preprocessed_df\<close> holds exactly the input records with
  both timestamps present, entry strictly before \<open>end_analysis_dt\<close> and exit at or
  after \<open>start_analysis_dt\<close>, so every visit wholly outside the analysis is left out.
  The records of the new frame are those of the input frame that pass this test, in
  their order, and its columns are the entry, exit and (when given) category columns.
\<close>

theorem preprocessed_records_are_those_in_the_window:
  assumes run: "Scenario_init T st kw = (Inr self, st')"
    and ref: "kw_stops_df kw < length (frames st)"
    and wf: "wf_frame (deref st (kw_stops_df kw))"
  shows "\<exists>r. stops_preprocessed_df self = Some r \<and> r < length (frames st') \<and>
      visit_records (deref st' r) (kw_in_field kw) (kw_out_field kw) (kw_cat_field kw) =
        filter (in_window (start_analysis_dt self) (end_analysis_dt self))
          (visit_records (deref st (kw_stops_df kw))
             (kw_in_field kw) (kw_out_field kw) (kw_cat_field kw)) \<and>
      set (df_columns (deref st' r)) =
        {kw_in_field kw, kw_out_field kw} \<union> set_option (kw_cat_field kw)"
  using run ref wf by (rule Scenario_init_rows)

theorem preprocessed_records_are_those_in_the_window_witness:
  "Scenario_init sample_Timestamp sample_heap sample_kwargs =
     (Inr sample_scenario, sample_heap_after) \<and>
   kw_stops_df sample_kwargs < length (frames sample_heap) \<and>
   wf_frame (deref sample_heap (kw_stops_df sample_kwargs)) \<and>
   (\<exists>r. stops_preprocessed_df sample_scenario = Some r \<and> r < length (frames sample_heap_after) \<and>
      visit_records (deref sample_heap_after r)
         (kw_in_field sample_kwargs) (kw_out_field sample_kwargs) (kw_cat_field sample_kwargs) =
        filter (in_window (start_analysis_dt sample_scenario) (end_analysis_dt sample_scenario))
          (visit_records (deref sample_heap (kw_stops_df sample_kwargs))
             (kw_in_field sample_kwargs) (kw_out_field sample_kwargs)
             (kw_cat_field sample_kwargs)) \<and>
      set (df_columns (deref sample_heap_after r)) =
        {kw_in_field sample_kwargs, kw_out_field sample_kwargs} \<union>
        set_option (kw_cat_field sample_kwargs)) \<and>
   filter (in_window (DT 0) (DT 10)) (visit_records sample_df ''entry'' ''exit'' None) =
     [(Time (DT 5), Time (DT 8), None), (Time (DT 7), Time (DT 3), None),
      (Time (DT (- 3)), Time (DT 0), None)]"
proof -
  have rows: "filter (in_window (DT 0) (DT 10)) (visit_records sample_df ''entry'' ''exit'' None) =
     [(Time (DT 5), Time (DT 8), None), (Time (DT 7), Time (DT 3), None),
      (Time (DT (- 3)), Time (DT 0), None)]"
    by code_simp
  from preprocessed_records_are_those_in_the_window [OF sample_run sample_ref sample_wf]
    sample_run sample_ref sample_wf rows
  show ?thesis by blast
qed

subsection \<open>C3: records that leave before they enter\<close>

text \<open>
  C3 says that a record whose exit timestamp precedes its entry timestamp is rejected or
  excluded during construction, so that none reaches \<open>stops_preprocessed_df\<close>. The
  filter never compares the two timestamps of a record: in the example, row 3 enters at
  7 and leaves at 3, and it is one of the preprocessed records.
\<close>

theorem inconsistent_record_is_kept:
  "Scenario_init sample_Timestamp sample_heap sample_kwargs =
     (Inr sample_scenario, sample_heap_after) \<and>
   (Time (DT 7), Time (DT 3), None) \<in>
     set (visit_records (deref sample_heap (kw_stops_df sample_kwargs)) ''entry'' ''exit'' None) \<and>
   dt_lt (DT 3) (DT 7) \<and>
   stops_preprocessed_df sample_scenario = Some 3 \<and>
   (Time (DT 7), Time (DT 3), None) \<in>
     set (visit_records (deref sample_heap_after 3) ''entry'' ''exit'' None)"
proof -
  have "(Time (DT 7), Time (DT 3), None) \<in>
     set (visit_records (deref sample_heap (kw_stops_df sample_kwargs)) ''entry'' ''exit'' None)"
    by code_simp
  moreover have "dt_lt (DT 3) (DT 7)" by simp
  moreover have "stops_preprocessed_df sample_scenario = Some 3"
    by (simp add: sample_scenario_def)
  moreover have "(Time (DT 7), Time (DT 3), None) \<in>
     set (visit_records (deref sample_heap_after 3) ''entry'' ''exit'' None)"
    by code_simp
  ultimately show ?thesis using sample_run by blast
qed

text \<open>
  C3, as the code has it: a record whose exit precedes its entry is treated as any other
  record. It is in \<open>stops_preprocessed_df\<close> exactly when it is an input record that
  passes the filter of the analysis span: both timestamps present, entry before
  \<open>end_analysis_dt\<close>, exit at or after \<open>start_analysis_dt\<close>.
\<close>

theorem inconsistent_records_pass_the_window_filter:
  assumes run: "Scenario_init T st kw = (Inr self, st')"
    and ref: "kw_stops_df kw < length (frames st)"
    and wf: "wf_frame (deref st (kw_stops_df kw))"
    and inconsistent: "x < e"
  shows "\<exists>r. stops_preprocessed_df self = Some r \<and>
      ((Time (DT e), Time (DT x), c) \<in>
          set (visit_records (deref st' r) (kw_in_field kw) (kw_out_field kw) (kw_cat_field kw))
        \<longleftrightarrow>
       (Time (DT e), Time (DT x), c) \<in>
          set (visit_records (deref st (kw_stops_df kw))
                 (kw_in_field kw) (kw_out_field kw) (kw_cat_field kw)) \<and>
       dt_lt (DT e) (end_analysis_dt self) \<and> dt_ge (DT x) (start_analysis_dt self))"
proof -
  from Scenario_init_rows [OF run ref wf] obtain r where
    r: "stops_preprocessed_df self = Some r"
    and rows: "visit_records (deref st' r) (kw_in_field kw) (kw_out_field kw) (kw_cat_field kw) =
        filter (in_window (start_analysis_dt self) (end_analysis_dt self))
          (visit_records (deref st (kw_stops_df kw))
             (kw_in_field kw) (kw_out_field kw) (kw_cat_field kw))"
    by blast
  show ?thesis
    by (rule exI [of _ r]) (auto simp: r rows)
qed

theorem inconsistent_records_pass_the_window_filter_witness:
  "Scenario_init sample_Timestamp sample_heap sample_kwargs =
     (Inr sample_scenario, sample_heap_after) \<and>
   kw_stops_df sample_kwargs < length (frames sample_heap) \<and>
   wf_frame (deref sample_heap (kw_stops_df sample_kwargs)) \<and>
   (3 :: int) < 7 \<and>
   (\<exists>r. stops_preprocessed_df sample_scenario = Some r \<and>
      ((Time (DT 7), Time (DT 3), None) \<in>
          set (visit_records (deref sample_heap_after r)
                 (kw_in_field sample_kwargs) (kw_out_field sample_kwargs)
                 (kw_cat_field sample_kwargs))
        \<longleftrightarrow>
       (Time (DT 7), Time (DT 3), None) \<in>
          set (visit_records (deref sample_heap (kw_stops_df sample_kwargs))
                 (kw_in_field sample_kwargs) (kw_out_field sample_kwargs)
                 (kw_cat_field sample_kwargs)) \<and>
       dt_lt (DT 7) (end_analysis_dt sample_scenario) \<and>
       dt_ge (DT 3) (start_analysis_dt sample_scenario)))"
proof -
  have "(3 :: int) < 7" by simp
  from inconsistent_records_pass_the_window_filter [OF sample_run sample_ref sample_wf this]
    sample_run sample_ref sample_wf this
  show ?thesis by blast
qed

subsection \<open>C7: the caller's frame is left as it was\<close>

text \<open>
  C7: construction and preprocessing never mutate the caller's \<open>stops_df\<close>. Whatever
  the outcome of the call, every frame that existed before it (the input frame is one)
  is afterwards what it was; the Scenario still refers to the caller's frame, and
  \<open>stops_preprocessed_df\<close> refers to a frame allocated during the call, which is
  therefore a different object.
\<close>

theorem construction_leaves_frames_unchanged:
  assumes ref: "kw_stops_df kw < length (frames st)"
  shows "(\<forall>r<length (frames st).
            deref (snd (Scenario_init T st kw :: (exn + 'h Scenario) \<times> heap)) r = deref st r) \<and>
         (\<forall>self st'. (Scenario_init T st kw :: (exn + 'h Scenario) \<times> heap) = (Inr self, st') \<longrightarrow>
            stops_df self = kw_stops_df kw \<and>
            (\<exists>r. stops_preprocessed_df self = Some r \<and>
                 length (frames st) \<le> r \<and> r < length (frames st')))"
proof (intro conjI allI impI)
  fix r assume r: "r < length (frames st)"
  from Scenario_init_frames [of T st kw, where ?'h = 'h] obtain new where
    "frames (snd (Scenario_init T st kw :: (exn + 'h Scenario) \<times> heap)) = frames st @ new"
    by blast
  with r show "deref (snd (Scenario_init T st kw :: (exn + 'h Scenario) \<times> heap)) r = deref st r"
    by (simp add: deref_def nth_append)
next
  fix self :: "'h Scenario" and st'
  assume run: "Scenario_init T st kw = (Inr self, st')"
  from Scenario_init_Inr [OF run] obtain s0 r0
    where valid: "validate_fields T (deref st (kw_stops_df kw)) kw = Inr (Inr s0)"
      and pre: "preprocess_stops_df st s0 = (Inr self, st')"
      and self: "self = s0\<lparr>stops_preprocessed_df := Some r0\<rparr>"
    by blast
  have s0: "stops_df s0 = kw_stops_df kw" by (rule validate_fields_Inr(3) [OF valid])
  then show "stops_df self = kw_stops_df kw" by (simp add: self)
  from preprocess_success [OF pre] ref s0
  show "\<exists>r. stops_preprocessed_df self = Some r \<and> length (frames st) \<le> r \<and> r < length (frames st')"
    by auto
qed

theorem construction_leaves_frames_unchanged_witness:
  "kw_stops_df sample_kwargs < length (frames sample_heap) \<and>
   deref sample_heap_after (kw_stops_df sample_kwargs) = deref sample_heap (kw_stops_df sample_kwargs) \<and>
   stops_df sample_scenario = kw_stops_df sample_kwargs \<and>
   (\<exists>r. stops_preprocessed_df sample_scenario = Some r \<and>
        length (frames sample_heap) \<le> r \<and> r < length (frames sample_heap_after))"
proof -
  have run: "snd (Scenario_init sample_Timestamp sample_heap sample_kwargs
               :: (exn + nat summaries Scenario) \<times> heap) = sample_heap_after"
    by (simp add: sample_run)
  from construction_leaves_frames_unchanged [OF sample_ref, of sample_Timestamp,
      where ?'h = "nat summaries"] sample_run sample_ref run
  show ?thesis by auto
qed

end
